theory Spec2Isabelle
  imports Complex_Main
begin

section \<open>Python values\<close>

text \<open>
  A Python \<^verbatim>\<open>str\<close> is a sequence of Unicode code points, so a text is a list of
  natural numbers and \<^verbatim>\<open>len\<close> is \<open>length\<close>. Python's \<^verbatim>\<open>float\<close> values are
  modelled by exact rationals: the value of a parsed numeral is its decimal value, and the
  comparisons with the thresholds 0.01, 0.5, 10, 1000000 and 10000000 are those of the
  decimal values. The arithmetic on positions and scores (\<^verbatim>\<open>start / len(text)\<close>,
  \<^verbatim>\<open>pos * 100\<close>, the sum of the score, \<^verbatim>\<open>int(pos * len(text))\<close>, the ratio of
  upper-case letters) is exact in the model; the rounding of double arithmetic in these
  operations is not modelled.

  The Unicode tables of the Python runtime are modelled as follows. Whitespace
  (\<^verbatim>\<open>str.strip\<close>, \<^verbatim>\<open>str.split\<close>, \<^verbatim>\<open>\s\<close>) is the full Unicode set of Python 3.
  Decimal digits (\<^verbatim>\<open>\d\<close>, \<^verbatim>\<open>str.isdigit\<close>), word characters (\<^verbatim>\<open>\w\<close>),
  upper-case letters (\<^verbatim>\<open>str.isupper\<close>) and the case mappings (\<^verbatim>\<open>str.lower\<close>,
  \<^verbatim>\<open>str.title\<close>) are the ASCII ones; code points above 127 are neither digits nor
  letters nor cased for these functions. Case-insensitive regular
  expression matching knows the four non-ASCII code points that Python lets match
  ASCII letters (U+0130, U+0131, U+017F, U+212A).
\<close>

type_synonym pystr = "nat list"

definition ustr :: "string \<Rightarrow> pystr" where
  "ustr s = map of_char s"

definition ch :: "char \<Rightarrow> nat" where
  "ch c = of_char c"

text \<open>The naira sign U+20A6.\<close>

definition naira :: nat where
  "naira = 8358"

datatype exn =
    ValueError pystr
  | AttributeError pystr
  | ZeroDivisionError pystr
  | IndexError pystr
  | TypeError pystr

fun exn_str :: "exn \<Rightarrow> pystr" where
  "exn_str (ValueError m) = m"
| "exn_str (AttributeError m) = m"
| "exn_str (ZeroDivisionError m) = m"
| "exn_str (IndexError m) = m"
| "exn_str (TypeError m) = m"

definition none_has_no_attribute :: "string \<Rightarrow> exn" where
  "none_has_no_attribute a =
     AttributeError ([39] @ ustr ''NoneType'' @ [39] @ ustr '' object has no attribute '' @
                     [39] @ ustr a @ [39])"

definition int_of_none :: exn where
  "int_of_none =
     TypeError (ustr ''int() argument must be a string, a bytes-like object or a real number, not '' @
                [39] @ ustr ''NoneType'' @ [39])"

definition division_by_zero :: exn where
  "division_by_zero = ZeroDivisionError (ustr ''division by zero'')"

definition list_index_out_of_range :: exn where
  "list_index_out_of_range = IndexError (ustr ''list index out of range'')"

subsection \<open>Character classes\<close>

definition py_isspace :: "nat \<Rightarrow> bool" where
  "py_isspace c \<longleftrightarrow>
     (9 \<le> c \<and> c \<le> 13) \<or> (28 \<le> c \<and> c \<le> 32) \<or> c = 133 \<or> c = 160 \<or> c = 5760 \<or>
     (8192 \<le> c \<and> c \<le> 8202) \<or> c = 8232 \<or> c = 8233 \<or> c = 8239 \<or> c = 8287 \<or> c = 12288"

definition ascii_digit :: "nat \<Rightarrow> bool" where
  "ascii_digit c \<longleftrightarrow> 48 \<le> c \<and> c \<le> 57"

definition ascii_upper :: "nat \<Rightarrow> bool" where
  "ascii_upper c \<longleftrightarrow> 65 \<le> c \<and> c \<le> 90"

definition ascii_lower :: "nat \<Rightarrow> bool" where
  "ascii_lower c \<longleftrightarrow> 97 \<le> c \<and> c \<le> 122"

subsection \<open>String methods\<close>

definition py_strip :: "pystr \<Rightarrow> pystr" where
  "py_strip s = rev (dropWhile py_isspace (rev (dropWhile py_isspace s)))"

definition lower_char :: "nat \<Rightarrow> nat" where
  "lower_char c = (if ascii_upper c then c + 32 else c)"

definition upper_char :: "nat \<Rightarrow> nat" where
  "upper_char c = (if ascii_lower c then c - 32 else c)"

definition py_lower :: "pystr \<Rightarrow> pystr" where
  "py_lower s = map lower_char s"

text \<open>\<^verbatim>\<open>s.startswith(p)\<close> and the substring test \<^verbatim>\<open>p in s\<close>.\<close>

fun startswith :: "pystr \<Rightarrow> pystr \<Rightarrow> bool" where
  "startswith s [] = True"
| "startswith [] (p # ps) = False"
| "startswith (x # xs) (p # ps) = (if x = p then startswith xs ps else False)"

fun py_in :: "pystr \<Rightarrow> pystr \<Rightarrow> bool" where
  "py_in p [] = (p = [])"
| "py_in p (x # xs) = (if startswith (x # xs) p then True else py_in p xs)"

text \<open>\<^verbatim>\<open>any(k in s for k in keywords)\<close> with the keywords given as literals.\<close>

definition any_in :: "string list \<Rightarrow> pystr \<Rightarrow> bool" where
  "any_in keywords s = list_ex (\<lambda>k. py_in (ustr k) s) keywords"

text \<open>\<^verbatim>\<open>s.split(c)\<close> for a one-character separator: empty pieces are kept.\<close>

fun split_on :: "nat \<Rightarrow> pystr \<Rightarrow> pystr list" where
  "split_on c [] = [[]]"
| "split_on c (x # xs) =
     (if x = c then [] # split_on c xs
      else (case split_on c xs of [] \<Rightarrow> [[x]] | w # ws \<Rightarrow> (x # w) # ws))"

text \<open>\<^verbatim>\<open>[line.strip() for line in text.split('\n') if line.strip()]\<close>\<close>

definition stripped_lines :: "pystr \<Rightarrow> pystr list" where
  "stripped_lines text = map py_strip (filter (\<lambda>l. py_strip l \<noteq> []) (split_on 10 text))"

text \<open>
  \<^verbatim>\<open>s.split(sep, 1)\<close> for a non-empty separator: \<open>None\<close> stands for the one-element
  list \<^verbatim>\<open>[s]\<close>, \<open>Some (a, b)\<close> for \<^verbatim>\<open>[a, b]\<close>, split at the first occurrence.
\<close>

fun split_once :: "pystr \<Rightarrow> pystr \<Rightarrow> (pystr \<times> pystr) option" where
  "split_once sep [] = None"
| "split_once sep (x # xs) =
     (if startswith (x # xs) sep then Some ([], drop (length sep) (x # xs))
      else (case split_once sep xs of None \<Rightarrow> None | Some (a, b) \<Rightarrow> Some (x # a, b)))"

text \<open>\<^verbatim>\<open>len(s.split())\<close>: the number of maximal runs of non-whitespace.\<close>

fun count_words :: "bool \<Rightarrow> pystr \<Rightarrow> nat" where
  "count_words inw [] = 0"
| "count_words inw (x # xs) =
     (if py_isspace x then count_words False xs
      else if inw then count_words True xs
      else 1 + count_words True xs)"

text \<open>\<^verbatim>\<open>s.title()\<close>: a letter is upper-cased after an uncased character, lower-cased after a letter.\<close>

fun title_from :: "bool \<Rightarrow> pystr \<Rightarrow> pystr" where
  "title_from prev [] = []"
| "title_from prev (x # xs) =
     (if ascii_upper x \<or> ascii_lower x
      then (if prev then lower_char x else upper_char x) # title_from True xs
      else x # title_from False xs)"

definition py_title :: "pystr \<Rightarrow> pystr" where
  "py_title s = title_from False s"

definition py_isdigit :: "pystr \<Rightarrow> bool" where
  "py_isdigit s \<longleftrightarrow> s \<noteq> [] \<and> list_all ascii_digit s"

text \<open>\<^verbatim>\<open>s[a:b]\<close> for \<open>0 \<le> a \<le> b\<close>.\<close>

definition slice :: "pystr \<Rightarrow> nat \<Rightarrow> nat \<Rightarrow> pystr" where
  "slice s a b = take (b - a) (drop a s)"

definition remove_commas :: "pystr \<Rightarrow> pystr" where
  "remove_commas s = filter (\<lambda>c. c \<noteq> 44) s"

subsection \<open>Numeric conversions\<close>

definition digits_value :: "pystr \<Rightarrow> nat" where
  "digits_value s = foldl (\<lambda>a c. 10 * a + (c - 48)) 0 s"

text \<open>\<^verbatim>\<open>int(s)\<close> on a match of \<^verbatim>\<open>\d+\<close>.\<close>

definition py_int :: "pystr \<Rightarrow> int" where
  "py_int s = int (digits_value s)"

text \<open>
  \<^verbatim>\<open>float(s)\<close> on what is left of a match of \<^verbatim>\<open>[0-9,]+\.?\d{0,2}\<close> once the commas
  are removed: digits, then at most one point, then digits. A string of this shape with no
  digit at all (\<^verbatim>\<open>''\<close> or \<^verbatim>\<open>'.'\<close>) makes Python raise \<^verbatim>\<open>ValueError\<close>, which is the
  result \<open>None\<close>; so does every string of another shape here (the extractors never pass one).
\<close>

definition py_float :: "pystr \<Rightarrow> rat option" where
  "py_float s =
     (let ip = takeWhile ascii_digit s; r = dropWhile ascii_digit s in
      if r = [] then (if ip = [] then None else Some (of_nat (digits_value ip)))
      else if hd r = 46 \<and> list_all ascii_digit (tl r) \<and> (ip \<noteq> [] \<or> tl r \<noteq> [])
      then Some (of_nat (digits_value ip) + of_nat (digits_value (tl r)) / 10 ^ length (tl r))
      else None)"

definition float_error :: "pystr \<Rightarrow> exn" where
  "float_error s = ValueError (ustr ''could not convert string to float: '' @ [39] @ s @ [39])"

section \<open>Regular expressions\<close>

text \<open>
  The patterns of the program are written as syntax trees and run by a backtracking
  matcher that explores alternatives in the order Python's \<^verbatim>\<open>re\<close> does: the first
  alternative before the second, a greedy repetition longest first, a lazy one shortest
  first. The matcher is in continuation-passing style; the continuation is the rest of
  the pattern, and a failure of the continuation makes the matcher try its next choice.
\<close>

datatype cset = CChar nat | CRange nat nat | CSpace | CDigit | CWord

datatype regex =
    Eps
  | Lit nat
  | Cls "cset list"
  | Seq regex regex
  | Alt regex regex
  | Star regex
  | LazyStar regex
  | Grp nat regex
  | Bol
  | Eol

text \<open>
  A matcher state: the position, the code point before it (\<open>None\<close> at the start of the
  text), the rest of the text, and the captured groups (group \<open>i\<close> at index \<open>i - 1\<close>).
\<close>

datatype mstate = MS nat "nat option" pystr "pystr option list"

fun cset_has :: "cset \<Rightarrow> nat \<Rightarrow> bool" where
  "cset_has (CChar c) x = (x = c)"
| "cset_has (CRange a b) x = (a \<le> x \<and> x \<le> b)"
| "cset_has CSpace x = py_isspace x"
| "cset_has CDigit x = ascii_digit x"
| "cset_has CWord x = (ascii_digit x \<or> ascii_upper x \<or> ascii_lower x \<or> x = 95)"

text \<open>The code points that \<^verbatim>\<open>re.IGNORECASE\<close> identifies with \<open>x\<close>.\<close>

definition re_variants :: "nat \<Rightarrow> nat list" where
  "re_variants x =
     (if x = 105 \<or> x = 73 \<or> x = 304 \<or> x = 305 then [105, 73, 304, 305]
      else if x = 115 \<or> x = 83 \<or> x = 383 then [115, 83, 383]
      else if x = 107 \<or> x = 75 \<or> x = 8490 then [107, 75, 8490]
      else if ascii_upper x then [x, x + 32]
      else if ascii_lower x then [x, x - 32]
      else [x])"

definition lit_match :: "bool \<Rightarrow> nat \<Rightarrow> nat \<Rightarrow> bool" where
  "lit_match ic c x = (if ic then list_ex (\<lambda>y. y = c) (re_variants x) else x = c)"

definition cls_match :: "bool \<Rightarrow> cset list \<Rightarrow> nat \<Rightarrow> bool" where
  "cls_match ic items x =
     (if ic then list_ex (\<lambda>y. list_ex (\<lambda>i. cset_has i y) items) (re_variants x)
      else list_ex (\<lambda>i. cset_has i x) items)"

fun rest_len :: "mstate \<Rightarrow> nat" where
  "rest_len (MS p q s g) = length s"

fun close_group :: "nat \<Rightarrow> nat \<Rightarrow> pystr \<Rightarrow> mstate \<Rightarrow> mstate" where
  "close_group i p s (MS p' q' s' g') = MS p' q' s' (g'[i - 1 := Some (take (p' - p) s)])"

fun ms_groups :: "mstate \<Rightarrow> pystr option list" where
  "ms_groups (MS p q s g) = g"

text \<open>
  \<open>rx ic ml r st k\<close>: match \<open>r\<close> at \<open>st\<close> and continue with \<open>k\<close>; \<open>ic\<close> is
  \<^verbatim>\<open>re.IGNORECASE\<close>, \<open>ml\<close> is \<^verbatim>\<open>re.MULTILINE\<close>. A repetition goes round again only after
  an iteration that consumed something.
\<close>

function rx :: "bool \<Rightarrow> bool \<Rightarrow> regex \<Rightarrow> mstate \<Rightarrow> (mstate \<Rightarrow> mstate option) \<Rightarrow> mstate option" where
  "rx ic ml Eps (MS p q s g) k = k (MS p q s g)"
| "rx ic ml (Lit c) (MS p q [] g) k = None"
| "rx ic ml (Lit c) (MS p q (x # xs) g) k =
     (if lit_match ic c x then k (MS (p + 1) (Some x) xs g) else None)"
| "rx ic ml (Cls items) (MS p q [] g) k = None"
| "rx ic ml (Cls items) (MS p q (x # xs) g) k =
     (if cls_match ic items x then k (MS (p + 1) (Some x) xs g) else None)"
| "rx ic ml (Seq r1 r2) (MS p q s g) k = rx ic ml r1 (MS p q s g) (\<lambda>st'. rx ic ml r2 st' k)"
| "rx ic ml (Alt r1 r2) (MS p q s g) k =
     (case rx ic ml r1 (MS p q s g) k of
        Some y \<Rightarrow> Some y
      | None \<Rightarrow> rx ic ml r2 (MS p q s g) k)"
| "rx ic ml (Star r) (MS p q s g) k =
     (case rx ic ml r (MS p q s g)
             (\<lambda>st'. if rest_len st' < length s then rx ic ml (Star r) st' k else None) of
        Some y \<Rightarrow> Some y
      | None \<Rightarrow> k (MS p q s g))"
| "rx ic ml (LazyStar r) (MS p q s g) k =
     (case k (MS p q s g) of
        Some y \<Rightarrow> Some y
      | None \<Rightarrow> rx ic ml r (MS p q s g)
             (\<lambda>st'. if rest_len st' < length s then rx ic ml (LazyStar r) st' k else None))"
| "rx ic ml (Grp i r) (MS p q s g) k = rx ic ml r (MS p q s g) (\<lambda>st'. k (close_group i p s st'))"
| "rx ic ml Bol (MS p q s g) k =
     (if q = None \<or> (ml \<and> q = Some 10) then k (MS p q s g) else None)"
| "rx ic ml Eol (MS p q s g) k =
     (if s = [] \<or> s = [10] \<or> (ml \<and> take 1 s = [10]) then k (MS p q s g) else None)"
  by pat_completeness auto
termination
  by (relation "measures [\<lambda>(ic, ml, r, st, k). size r, \<lambda>(ic, ml, r, st, k). rest_len st]") auto

subsection \<open>Derived pattern forms\<close>

fun rx_seq :: "regex list \<Rightarrow> regex" where
  "rx_seq [] = Eps"
| "rx_seq [r] = r"
| "rx_seq (r # rs) = Seq r (rx_seq rs)"

fun rx_alt :: "regex list \<Rightarrow> regex" where
  "rx_alt [] = Eps"
| "rx_alt [r] = r"
| "rx_alt (r # rs) = Alt r (rx_alt rs)"

definition Str :: "string \<Rightarrow> regex" where
  "Str s = rx_seq (map (\<lambda>c. Lit (of_char c)) s)"

definition Words :: "string list \<Rightarrow> regex" where
  "Words ws = rx_alt (map Str ws)"

definition Plus :: "regex \<Rightarrow> regex" where
  "Plus r = Seq r (Star r)"

definition LazyPlus :: "regex \<Rightarrow> regex" where
  "LazyPlus r = Seq r (LazyStar r)"

definition Opt :: "regex \<Rightarrow> regex" where
  "Opt r = Alt r Eps"

primrec rx_upto :: "regex \<Rightarrow> nat \<Rightarrow> regex" where
  "rx_upto r 0 = Eps"
| "rx_upto r (Suc n) = Opt (Seq r (rx_upto r n))"

primrec rx_times :: "regex \<Rightarrow> nat \<Rightarrow> regex \<Rightarrow> regex" where
  "rx_times r 0 t = t"
| "rx_times r (Suc n) t = Seq r (rx_times r n t)"

text \<open>\<^verbatim>\<open>r{m,n}\<close>, greedy.\<close>

definition Rep :: "regex \<Rightarrow> nat \<Rightarrow> nat \<Rightarrow> regex" where
  "Rep r m n = rx_times r m (rx_upto r (n - m))"

subsection \<open>The functions of the \<^verbatim>\<open>re\<close> module\<close>

record re_pattern =
  p_regex :: regex
  p_groups :: nat

record re_m =
  m_start :: nat
  m_end :: nat
  m_groups :: "pystr option list"

fun st_match :: "nat \<Rightarrow> mstate \<Rightarrow> re_m" where
  "st_match b (MS e q s g) = \<lparr>m_start = b, m_end = e, m_groups = g\<rparr>"

text \<open>The leftmost match at or after the position of the state.\<close>

fun re_search_from :: "bool \<Rightarrow> bool \<Rightarrow> re_pattern \<Rightarrow> nat \<Rightarrow> nat option \<Rightarrow> pystr \<Rightarrow> (nat \<times> mstate) option" where
  "re_search_from ic ml pat p q [] =
     (case rx ic ml (p_regex pat) (MS p q [] (replicate (p_groups pat) None)) Some of
        Some st \<Rightarrow> Some (p, st)
      | None \<Rightarrow> None)"
| "re_search_from ic ml pat p q (x # xs) =
     (case rx ic ml (p_regex pat) (MS p q (x # xs) (replicate (p_groups pat) None)) Some of
        Some st \<Rightarrow> Some (p, st)
      | None \<Rightarrow> re_search_from ic ml pat (p + 1) (Some x) xs)"

definition re_search :: "bool \<Rightarrow> bool \<Rightarrow> re_pattern \<Rightarrow> pystr \<Rightarrow> re_m option" where
  "re_search ic ml pat text =
     (case re_search_from ic ml pat 0 None text of
        None \<Rightarrow> None
      | Some (b, st) \<Rightarrow> Some (st_match b st))"

definition re_match :: "bool \<Rightarrow> bool \<Rightarrow> re_pattern \<Rightarrow> pystr \<Rightarrow> re_m option" where
  "re_match ic ml pat text =
     (case rx ic ml (p_regex pat) (MS 0 None text (replicate (p_groups pat) None)) Some of
        None \<Rightarrow> None
      | Some st \<Rightarrow> Some (st_match 0 st))"

text \<open>
  \<^verbatim>\<open>re.finditer\<close>: the non-overlapping matches from left to right. Every pattern of the
  program needs at least one character; the scan of a pattern that matched the empty
  string would stop at that match.
\<close>

function re_finditer_from :: "bool \<Rightarrow> bool \<Rightarrow> re_pattern \<Rightarrow> mstate \<Rightarrow> re_m list" where
  "re_finditer_from ic ml pat (MS p q s g) =
     (case re_search_from ic ml pat p q s of
        None \<Rightarrow> []
      | Some (b, st) \<Rightarrow>
          st_match b st #
            (if rest_len st < length s
             then (case st of MS e q' s' g' \<Rightarrow> re_finditer_from ic ml pat (MS e q' s' g))
             else []))"
  by pat_completeness auto
termination
  by (relation "measure (\<lambda>(ic, ml, pat, st). rest_len st)") auto

definition re_finditer :: "bool \<Rightarrow> bool \<Rightarrow> re_pattern \<Rightarrow> pystr \<Rightarrow> re_m list" where
  "re_finditer ic ml pat text = re_finditer_from ic ml pat (MS 0 None text [])"

text \<open>\<^verbatim>\<open>match.group(i)\<close> for \<open>1 \<le> i\<close>; \<open>None\<close> when the group took no part in the match.\<close>

definition m_group :: "re_m \<Rightarrow> nat \<Rightarrow> pystr option" where
  "m_group m i = m_groups m ! (i - 1)"

text \<open>
  \<^verbatim>\<open>re.findall\<close> for a pattern with exactly one group: the strings of group 1, the empty
  string for a group that took no part.
\<close>

definition re_findall :: "bool \<Rightarrow> bool \<Rightarrow> re_pattern \<Rightarrow> pystr \<Rightarrow> pystr list" where
  "re_findall ic ml pat text =
     map (\<lambda>m. case m_group m 1 of None \<Rightarrow> [] | Some s \<Rightarrow> s) (re_finditer ic ml pat text)"

text \<open>\<^verbatim>\<open>re.sub(r'[^...]', '', s)\<close>: every character outside the class is deleted.\<close>

definition re_sub_outside :: "cset list \<Rightarrow> pystr \<Rightarrow> pystr" where
  "re_sub_outside items s = filter (cls_match False items) s"

subsection \<open>Pattern fragments shared by the two modules\<close>

definition digit :: regex where
  "digit = Cls [CDigit]"

definition space :: regex where
  "space = Cls [CSpace]"

definition cls_09 :: cset where
  "cls_09 = CRange (ch CHR ''0'') (ch CHR ''9'')"

definition cls_AZ :: cset where
  "cls_AZ = CRange (ch CHR ''A'') (ch CHR ''Z'')"

definition cls_az :: cset where
  "cls_az = CRange (ch CHR ''a'') (ch CHR ''z'')"

text \<open>\<^verbatim>\<open>[0-9,]+\.?\d{0,2}\<close>\<close>

definition num :: regex where
  "num = rx_seq [Plus (Cls [cls_09, CChar (ch CHR '','')]), Opt (Lit (ch CHR ''.'')), Rep digit 0 2]"

text \<open>\<^verbatim>\<open>[:\s]\<close>\<close>

definition colon_space :: regex where
  "colon_space = Cls [CChar (ch CHR '':''), CSpace]"

text \<open>\<^verbatim>\<open>(?:st|nd|rd|th)\<close>\<close>

definition ordinal :: regex where
  "ordinal = Words [''st'', ''nd'', ''rd'', ''th'']"

text \<open>\<^verbatim>\<open>(?:Jan|Feb|Mar|Apr|May|Jun|Jul|Aug|Sep|Oct|Nov|Dec)\<close>\<close>

definition month3 :: regex where
  "month3 = Words [''Jan'', ''Feb'', ''Mar'', ''Apr'', ''May'', ''Jun'',
                   ''Jul'', ''Aug'', ''Sep'', ''Oct'', ''Nov'', ''Dec'']"

text \<open>\<^verbatim>\<open>(?:LTD|LIMITED|INC|COMPANY|CORP|PLC)\<close>\<close>

definition company_suffix :: regex where
  "company_suffix = Words [''LTD'', ''LIMITED'', ''INC'', ''COMPANY'', ''CORP'', ''PLC'']"

text \<open>\<^verbatim>\<open>[A-Z][A-Z\s&.-]+\<close>\<close>

definition upper_name :: regex where
  "upper_name =
     Seq (Cls [cls_AZ])
         (Plus (Cls [cls_AZ, CSpace, CChar (ch CHR ''&''), CChar (ch CHR ''.''), CChar (ch CHR ''-'')]))"

text \<open>\<^verbatim>\<open>(\d{1,2}[-/]\d{1,2}[-/]\d{2,4})\<close> and \<^verbatim>\<open>(\d{4}-\d{1,2}-\d{1,2})\<close>\<close>

definition dash_slash :: regex where
  "dash_slash = Cls [CChar (ch CHR ''-''), CChar (ch CHR ''/'')]"

definition date_numeric :: re_pattern where
  "date_numeric =
     \<lparr>p_regex = Grp 1 (rx_seq [Rep digit 1 2, dash_slash, Rep digit 1 2, dash_slash, Rep digit 2 4]),
      p_groups = 1\<rparr>"

definition date_iso :: re_pattern where
  "date_iso =
     \<lparr>p_regex = Grp 1 (rx_seq [Rep digit 4 4, Lit (ch CHR ''-''), Rep digit 1 2,
                               Lit (ch CHR ''-''), Rep digit 1 2]),
      p_groups = 1\<rparr>"

section \<open>The result of the pipeline\<close>

record line_item =
  name :: pystr
  quantity :: int
  unit_price :: rat
  total_price :: rat

record extraction_result =
  vendor :: "pystr option"
  amount :: "rat option"
  date :: "pystr option"
  category :: pystr
  line_items :: "line_item list"
  raw_text :: pystr
  success :: bool
  error :: "pystr option"

text \<open>The first result of a loop body that returns from the function.\<close>

fun first_some :: "('a \<Rightarrow> 'b option) \<Rightarrow> 'a list \<Rightarrow> 'b option" where
  "first_some f [] = None"
| "first_some f (x # xs) = (case f x of Some y \<Rightarrow> Some y | None \<Rightarrow> first_some f xs)"

text \<open>
  A loop whose body may raise, may append one element, or may do neither
  (\<^verbatim>\<open>continue\<close>): the raise ends the loop.
\<close>

fun collect :: "('a \<Rightarrow> exn + 'b option) \<Rightarrow> 'a list \<Rightarrow> exn + 'b list" where
  "collect f [] = Inr []"
| "collect f (x # xs) =
     (case f x of
        Inl e \<Rightarrow> Inl e
      | Inr r \<Rightarrow>
          (case collect f xs of
             Inl e \<Rightarrow> Inl e
           | Inr rs \<Rightarrow> Inr (case r of None \<Rightarrow> rs | Some v \<Rightarrow> v # rs)))"


text \<open>A loop whose body may raise or may return from the function.\<close>

fun first_result :: "('a \<Rightarrow> exn + 'b option) \<Rightarrow> 'a list \<Rightarrow> exn + 'b option" where
  "first_result f [] = Inr None"
| "first_result f (x # xs) =
     (case f x of
        Inl e \<Rightarrow> Inl e
      | Inr None \<Rightarrow> first_result f xs
      | Inr (Some v) \<Rightarrow> Inr (Some v))"

section \<open>Module \<^verbatim>\<open>ocr_processor\<close>\<close>

subsection \<open>\<^verbatim>\<open>extract_vendor\<close>\<close>

text \<open>\<^verbatim>\<open>([A-Z][A-Z\s&.-]+(?:LTD|LIMITED|INC|COMPANY|CORP|PLC)?)\<close>\<close>

definition ocr_processor_vendor_group :: regex where
  "ocr_processor_vendor_group = Grp 1 (Seq upper_name (Opt company_suffix))"

definition ocr_processor_vendor_patterns :: "re_pattern list" where
  "ocr_processor_vendor_patterns =
     [\<lparr>p_regex = rx_seq [Str ''recipient details'', Plus space, ocr_processor_vendor_group],
       p_groups = 1\<rparr>,
      \<lparr>p_regex = rx_seq [Str ''merchant'', Plus colon_space, ocr_processor_vendor_group],
       p_groups = 1\<rparr>,
      \<lparr>p_regex = rx_seq [Str ''payee'', Plus colon_space, ocr_processor_vendor_group],
       p_groups = 1\<rparr>,
      \<lparr>p_regex = Grp 1 (Seq upper_name company_suffix), p_groups = 1\<rparr>]"

text \<open>The body of the loop over the matches of one pattern.\<close>

definition ocr_processor_vendor_of_match :: "re_m \<Rightarrow> exn + pystr option" where
  "ocr_processor_vendor_of_match m =
     (case m_group m 1 of
        None \<Rightarrow> Inl (none_has_no_attribute ''strip'')
      | Some g \<Rightarrow>
          (case split_on 10 (py_strip g) of
             [] \<Rightarrow> Inl list_index_out_of_range
           | w # ws \<Rightarrow>
               (if length (py_strip w) > 3 \<and> \<not> py_in (ustr ''bank'') (py_lower (py_strip w))
                then Inr (Some (py_strip w))
                else Inr None)))"

text \<open>\<^verbatim>\<open>[^\w\s&.-]\<close> is the complement of this class.\<close>

definition ocr_processor_vendor_chars :: "cset list" where
  "ocr_processor_vendor_chars =
     [CWord, CSpace, CChar (ch CHR ''&''), CChar (ch CHR ''.''), CChar (ch CHR ''-'')]"

definition ocr_processor_upper_line :: "pystr \<Rightarrow> pystr option" where
  "ocr_processor_upper_line line =
     (if any_in [''transaction'', ''receipt'', ''successful'', ''opay'', ''@'', ''nov '',
                 ''session'', ''enjoy''] (py_lower line)
      then None
      else if length line > 3 \<and>
              (of_nat (length (filter ascii_upper line)) :: rat) > of_nat (length line) * (6 / 10)
      then Some (py_strip (re_sub_outside ocr_processor_vendor_chars line))
      else None)"

definition ocr_processor_meaningful_line :: "pystr \<Rightarrow> pystr option" where
  "ocr_processor_meaningful_line line =
     (if length line > 3 \<and> \<not> any_in [''@'', ''transaction'', ''receipt''] (py_lower line)
      then Some (py_strip (re_sub_outside ocr_processor_vendor_chars line))
      else None)"

definition ocr_processor_extract_vendor :: "pystr \<Rightarrow> exn + pystr option" where
  "ocr_processor_extract_vendor text =
     (case first_result
             (\<lambda>pat. first_result ocr_processor_vendor_of_match (re_finditer True True pat text))
             ocr_processor_vendor_patterns of
        Inl e \<Rightarrow> Inl e
      | Inr (Some v) \<Rightarrow> Inr (Some v)
      | Inr None \<Rightarrow>
          (case first_some ocr_processor_upper_line (stripped_lines text) of
             Some v \<Rightarrow> Inr (Some v)
           | None \<Rightarrow> Inr (first_some ocr_processor_meaningful_line (stripped_lines text))))"

subsection \<open>\<^verbatim>\<open>extract_amount\<close>\<close>

text \<open>\<^verbatim>\<open>([0-9]{1,3}(?:,[0-9]{3})*\.?[0-9]{0,2})\<close>\<close>

definition ocr_processor_grouped_number :: regex where
  "ocr_processor_grouped_number =
     Grp 1 (rx_seq [Rep (Cls [cls_09]) 1 3,
                    Star (Seq (Lit (ch CHR '','')) (Rep (Cls [cls_09]) 3 3)),
                    Opt (Lit (ch CHR ''.'')),
                    Rep (Cls [cls_09]) 0 2])"

definition ocr_processor_amount_patterns :: "re_pattern list" where
  "ocr_processor_amount_patterns =
     [\<lparr>p_regex = rx_seq [Lit naira, Star space, Grp 1 num], p_groups = 1\<rparr>,
      \<lparr>p_regex = rx_seq [Grp 1 num, Star space, Str ''naira''], p_groups = 1\<rparr>,
      \<lparr>p_regex = rx_seq [Str ''total'', Star colon_space, Opt (Lit naira), Star space, Grp 1 num],
       p_groups = 1\<rparr>,
      \<lparr>p_regex = rx_seq [Str ''amount'', Star colon_space, Opt (Lit naira), Star space, Grp 1 num],
       p_groups = 1\<rparr>,
      \<lparr>p_regex = rx_seq [Lit (ch CHR ''$''), Star space, Grp 1 num], p_groups = 1\<rparr>,
      \<lparr>p_regex = rx_seq [Grp 1 num, Star space, Str ''USD''], p_groups = 1\<rparr>,
      \<lparr>p_regex = rx_seq [Str ''total'', Star colon_space, Opt (Lit (ch CHR ''$'')), Star space,
                          Grp 1 num],
       p_groups = 1\<rparr>,
      \<lparr>p_regex = rx_seq [Str ''amount'', Star colon_space, Opt (Lit (ch CHR ''$'')), Star space,
                          Grp 1 num],
       p_groups = 1\<rparr>,
      \<lparr>p_regex = rx_seq [Bol, ocr_processor_grouped_number, Eol], p_groups = 1\<rparr>,
      \<lparr>p_regex = rx_seq [Lit 10, ocr_processor_grouped_number, Lit 10], p_groups = 1\<rparr>]"

text \<open>
  The body of the loop over the matches: \<open>Inr None\<close> is \<^verbatim>\<open>continue\<close> (the
  \<^verbatim>\<open>ValueError\<close> of \<^verbatim>\<open>float\<close> is caught there), \<open>Inr (Some (amount, position))\<close> is the
  pair appended to \<^verbatim>\<open>amounts\<close>.
\<close>

definition ocr_processor_amount_of_match :: "pystr \<Rightarrow> re_m \<Rightarrow> exn + (rat \<times> rat) option" where
  "ocr_processor_amount_of_match text m =
     (case m_group m 1 of
        None \<Rightarrow> Inl (none_has_no_attribute ''replace'')
      | Some g \<Rightarrow>
          (case py_float (remove_commas g) of
             None \<Rightarrow> Inr None
           | Some amt \<Rightarrow>
               (if amt > 1000000 then Inr None
                else if length text = 0 then Inl division_by_zero
                else Inr (Some (amt, of_nat (m_start m) / of_nat (length text))))))"

definition ocr_processor_amounts :: "pystr \<Rightarrow> exn + (rat \<times> rat) list" where
  "ocr_processor_amounts text =
     collect (ocr_processor_amount_of_match text)
       (concat (map (\<lambda>pat. re_finditer True True pat text) ocr_processor_amount_patterns))"

definition ocr_processor_text_around :: "pystr \<Rightarrow> rat \<Rightarrow> pystr" where
  "ocr_processor_text_around text pos =
     (let i = nat \<lfloor>pos * of_nat (length text)\<rfloor> in
      py_lower (slice text (if i < 50 then 0 else i - 50) (i + 50)))"

definition ocr_processor_final_score :: "pystr \<Rightarrow> rat \<times> rat \<Rightarrow> rat" where
  "ocr_processor_final_score text ap =
     (let position_score = snd ap * 100;
          size_score = min (fst ap) 1000
      in (if any_in [''total'', ''due'', ''amount due'', ''pay'']
                    (ocr_processor_text_around text (snd ap))
          then position_score + 50
          else position_score) + size_score)"

definition ocr_processor_significant :: "(rat \<times> rat) list \<Rightarrow> (rat \<times> rat) list" where
  "ocr_processor_significant amounts = filter (\<lambda>ap. fst ap \<ge> 1 / 2) amounts"

text \<open>
  \<^verbatim>\<open>final_amounts.sort(key=lambda x: x[2], reverse=True)\<close> is a stable sort by
  descending score.
\<close>

definition ocr_processor_final_amounts :: "pystr \<Rightarrow> (rat \<times> rat) list \<Rightarrow> (rat \<times> rat \<times> rat) list" where
  "ocr_processor_final_amounts text significant =
     sort_key (\<lambda>x. - snd (snd x))
       (map (\<lambda>ap. (fst ap, snd ap, ocr_processor_final_score text ap)) significant)"

definition ocr_processor_select_amount :: "pystr \<Rightarrow> (rat \<times> rat) list \<Rightarrow> exn + rat option" where
  "ocr_processor_select_amount text amounts =
     (case amounts of
        [] \<Rightarrow> Inr None
      | a # as \<Rightarrow>
          (if ocr_processor_significant amounts = [] then Inr (Some (fst a))
           else (case ocr_processor_final_amounts text (ocr_processor_significant amounts) of
                   [] \<Rightarrow> Inl list_index_out_of_range
                 | x # xs \<Rightarrow> Inr (Some (fst x)))))"

definition ocr_processor_extract_amount :: "pystr \<Rightarrow> exn + rat option" where
  "ocr_processor_extract_amount text =
     (case ocr_processor_amounts text of
        Inl e \<Rightarrow> Inl e
      | Inr amounts \<Rightarrow> ocr_processor_select_amount text amounts)"

subsection \<open>\<^verbatim>\<open>extract_date\<close>\<close>

text \<open>\<^verbatim>\<open>Nov\s+\d{1,2}(?:st|nd|rd|th)?,?\s+\d{4}\<close>\<close>

definition ocr_processor_nov :: "regex list" where
  "ocr_processor_nov =
     [Str ''Nov'', Plus space, Rep digit 1 2, Opt ordinal, Opt (Lit (ch CHR '','')), Plus space,
      Rep digit 4 4]"

definition ocr_processor_date_patterns :: "re_pattern list" where
  "ocr_processor_date_patterns =
     [\<lparr>p_regex = Grp 1 (rx_seq (ocr_processor_nov @
                     [Plus space, Rep digit 1 2, Lit (ch CHR '':''), Rep digit 2 2,
                      Lit (ch CHR '':''), Rep digit 2 2])),
       p_groups = 1\<rparr>,
      \<lparr>p_regex = Grp 1 (rx_seq ocr_processor_nov), p_groups = 1\<rparr>,
      date_numeric,
      \<lparr>p_regex = Grp 1 (rx_seq [Rep digit 1 2, Plus space, month3, Star (Cls [cls_az]), Plus space,
                                Rep digit 2 4]),
       p_groups = 1\<rparr>,
      \<lparr>p_regex = Grp 1 (rx_seq [month3, Star (Cls [cls_az]), Plus space, Rep digit 1 2, Opt ordinal,
                                Opt (Lit (ch CHR '','')), Plus space, Rep digit 2 4]),
       p_groups = 1\<rparr>,
      date_iso,
      \<lparr>p_regex = Grp 1 (rx_seq [Rep digit 2 2, Lit (ch CHR ''/''), Rep digit 2 2, Lit (ch CHR ''/''),
                                Rep digit 4 4]),
       p_groups = 1\<rparr>]"

text \<open>
  The body of the loop over the patterns:
  \<^verbatim>\<open>match.group(1) if len(match.groups()) > 0 else match.group(0)\<close>, stripped.
\<close>

definition ocr_processor_date_of_pattern :: "pystr \<Rightarrow> re_pattern \<Rightarrow> exn + pystr option" where
  "ocr_processor_date_of_pattern text pat =
     (case re_search True False pat text of
        None \<Rightarrow> Inr None
      | Some m \<Rightarrow>
          (if p_groups pat > 0
           then (case m_group m 1 of
                   None \<Rightarrow> Inl (none_has_no_attribute ''strip'')
                 | Some g \<Rightarrow> Inr (Some (py_strip g)))
           else Inr (Some (py_strip (slice text (m_start m) (m_end m))))))"

definition ocr_processor_extract_date :: "pystr \<Rightarrow> exn + pystr option" where
  "ocr_processor_extract_date text =
     first_result (ocr_processor_date_of_pattern text) ocr_processor_date_patterns"

subsection \<open>\<^verbatim>\<open>classify_category\<close>\<close>

definition ocr_processor_categories :: "(string \<times> string list) list" where
  "ocr_processor_categories =
     [(''financial'', [''opay'', ''bank'', ''transfer'', ''payment'', ''transaction'', ''mobile money'',
                       ''fintech'']),
      (''electronics'', [''electro'', ''galactica'', ''electronics'', ''computer'', ''tech'', ''gadget'']),
      (''technology'', [''hosting'', ''domain'', ''server'', ''cloud'', ''software'', ''saas'', ''railway'',
                        ''vercel'', ''netlify'', ''aws'', ''invoice'']),
      (''business'', [''company ltd'', ''limited'', ''corporation'', ''enterprise'', ''services'',
                      ''consultant'']),
      (''groceries'', [''grocery'', ''supermarket'', ''food'', ''market'', ''shoprite'', ''spar'',
                       ''provision'']),
      (''restaurant'', [''restaurant'', ''cafe'', ''pizza'', ''dining'', ''bar'', ''grill'', ''kitchen'',
                        ''eatery'']),
      (''fuel'', [''gas'', ''fuel'', ''petrol'', ''filling station'', ''total'', ''mobil'', ''oando'']),
      (''retail'', [''store'', ''shop'', ''mall'', ''boutique'', ''clothing'', ''fashion'']),
      (''pharmacy'', [''pharmacy'', ''medical'', ''drug'', ''health'', ''hospital'', ''clinic'']),
      (''transportation'', [''uber'', ''bolt'', ''taxi'', ''bus'', ''transport'', ''travel'']),
      (''utilities'', [''electric'', ''water'', ''nepa'', ''internet'', ''phone'', ''utility'', ''telecom'',
                       ''mtn'', ''airtel'']),
      (''education'', [''school'', ''university'', ''education'', ''training'', ''course''])]"

text \<open>
  The loop over the items of a dictionary, in insertion order: the first category one of
  whose keywords occurs in the content, or the default.
\<close>

fun first_category :: "(string \<times> string list) list \<Rightarrow> pystr \<Rightarrow> pystr option" where
  "first_category [] content = None"
| "first_category ((cat, keywords) # rest) content =
     (if any_in keywords content then Some (ustr cat) else first_category rest content)"

definition vendor_or_empty :: "pystr option \<Rightarrow> pystr" where
  "vendor_or_empty v = (case v of None \<Rightarrow> [] | Some s \<Rightarrow> s)"

definition ocr_processor_classify_category :: "pystr option \<Rightarrow> pystr \<Rightarrow> pystr" where
  "ocr_processor_classify_category v text =
     (case first_category ocr_processor_categories (py_lower (vendor_or_empty v @ [32] @ text)) of
        Some c \<Rightarrow> c
      | None \<Rightarrow> ustr ''other'')"


subsection \<open>\<^verbatim>\<open>extract_line_items\<close>\<close>

text \<open>\<^verbatim>\<open>([A-Za-z][A-Za-z\s\.,&-]+?)\<close>\<close>

definition ocr_processor_item_name :: regex where
  "ocr_processor_item_name =
     Grp 1 (Seq (Cls [cls_AZ, cls_az])
                (LazyPlus (Cls [cls_AZ, cls_az, CSpace, CChar (ch CHR ''.''), CChar (ch CHR '',''),
                                CChar (ch CHR ''&''), CChar (ch CHR ''-'')])))"

definition ocr_processor_item_patterns :: "re_pattern list" where
  "ocr_processor_item_patterns =
     [\<lparr>p_regex = rx_seq [Bol, ocr_processor_item_name, Plus space,
                          Grp 2 (Alt (Seq (Str ''Pc'') (Opt (Lit (ch CHR ''s'')))) (Str ''REGULAR'')),
                          Plus space, Grp 3 (Plus digit), Plus space, Grp 4 num, Eol],
       p_groups = 4\<rparr>,
      \<lparr>p_regex = rx_seq [Bol, ocr_processor_item_name, Plus space, Grp 2 num, Eol],
       p_groups = 2\<rparr>,
      \<lparr>p_regex = rx_seq [Bol, ocr_processor_item_name, Plus space,
                          Opt (rx_alt [Seq (Str ''Pc'') (Opt (Lit (ch CHR ''s''))), Str ''REGULAR'',
                                       Lit (ch CHR ''x'')]),
                          Star space, Opt (Grp 2 (Plus digit)), Star space, Opt (Lit (ch CHR ''x'')),
                          Star space, Grp 3 num, Eol],
       p_groups = 3\<rparr>]"

text \<open>\<^verbatim>\<open>float(price.replace(',', ''))\<close> for a group that may be \<^verbatim>\<open>None\<close>.\<close>

definition ocr_processor_price :: "pystr option \<Rightarrow> exn + rat" where
  "ocr_processor_price price =
     (case price of
        None \<Rightarrow> Inl (none_has_no_attribute ''replace'')
      | Some s \<Rightarrow>
          (case py_float (remove_commas s) of
             None \<Rightarrow> Inl (float_error (remove_commas s))
           | Some v \<Rightarrow> Inr v))"

text \<open>
  The branches on \<^verbatim>\<open>len(groups)\<close>: the result is the name group and
  \<^verbatim>\<open>(quantity, unit_price, total_price)\<close>, or \<open>None\<close> for the final \<^verbatim>\<open>continue\<close>.
  In the branch for three groups, a second group that is \<^verbatim>\<open>None\<close> is false in the test
  and reaches \<^verbatim>\<open>qty_or_price.replace\<close> in the \<^verbatim>\<open>else\<close> part.
\<close>

fun ocr_processor_item_values :: "pystr option list \<Rightarrow> exn + (pystr option \<times> int \<times> rat \<times> rat) option" where
  "ocr_processor_item_values [nm, unit_type, qty, price] =
     (case qty of
        None \<Rightarrow> Inl int_of_none
      | Some q \<Rightarrow>
          (case ocr_processor_price price of
             Inl e \<Rightarrow> Inl e
           | Inr tot \<Rightarrow>
               Inr (Some (nm, py_int q, (if py_int q > 0 then tot / of_int (py_int q) else tot), tot))))"
| "ocr_processor_item_values [nm, qty_or_price, price_or_empty] =
     (case qty_or_price of
        None \<Rightarrow> Inl (none_has_no_attribute ''replace'')
      | Some q \<Rightarrow>
          (if q \<noteq> [] \<and> py_isdigit q
           then (case ocr_processor_price price_or_empty of
                   Inl e \<Rightarrow> Inl e
                 | Inr tot \<Rightarrow>
                     Inr (Some (nm, py_int q,
                                (if py_int q > 0 then tot / of_int (py_int q) else tot), tot)))
           else (case ocr_processor_price (Some q) of
                   Inl e \<Rightarrow> Inl e
                 | Inr tot \<Rightarrow> Inr (Some (nm, 1, tot, tot)))))"
| "ocr_processor_item_values [nm, price] =
     (case ocr_processor_price price of
        Inl e \<Rightarrow> Inl e
      | Inr tot \<Rightarrow> Inr (Some (nm, 1, tot, tot)))"
| "ocr_processor_item_values groups = Inr None"

text \<open>
  The loop over the patterns for one line. \<open>Inr None\<close>: no pattern produced an item;
  \<open>Inr (Some item)\<close>: the item appended before \<^verbatim>\<open>break\<close>. An item whose total is
  below 10 is not appended, and the loop goes on with the next pattern.
\<close>

fun ocr_processor_item_of_line :: "pystr \<Rightarrow> re_pattern list \<Rightarrow> exn + line_item option" where
  "ocr_processor_item_of_line line [] = Inr None"
| "ocr_processor_item_of_line line (pat # pats) =
     (case re_match True False pat (py_strip line) of
        None \<Rightarrow> ocr_processor_item_of_line line pats
      | Some m \<Rightarrow>
          (case ocr_processor_item_values (m_groups m) of
             Inl e \<Rightarrow> Inl e
           | Inr None \<Rightarrow> ocr_processor_item_of_line line pats
           | Inr (Some (nm, qty, up, tot)) \<Rightarrow>
               (case nm of
                  None \<Rightarrow> Inl (none_has_no_attribute ''strip'')
                | Some n \<Rightarrow>
                    (if tot < 10 then ocr_processor_item_of_line line pats
                     else Inr (Some \<lparr>name = py_title (py_strip n), quantity = qty,
                                     unit_price = up, total_price = tot\<rparr>)))))"

text \<open>The body of the loop over the lines.\<close>

definition ocr_processor_line_item :: "pystr \<Rightarrow> exn + line_item option" where
  "ocr_processor_line_item line =
     (if any_in [''item name'', ''subtotal'', ''total'', ''discount'', ''settled'', ''thank you'',
                 ''receipt'', ''===='']  (py_lower line)
      then Inr None
      else if length line < 5 \<or> \<not> list_ex ascii_digit line then Inr None
      else ocr_processor_item_of_line line ocr_processor_item_patterns)"

definition ocr_processor_extract_line_items :: "pystr \<Rightarrow> exn + line_item list" where
  "ocr_processor_extract_line_items text = collect ocr_processor_line_item (stripped_lines text)"

subsection \<open>\<^verbatim>\<open>process_receipt\<close>\<close>

text \<open>
  The argument is the text that \<^verbatim>\<open>extract_text(image_path)\<close> delivers; reading the
  file is outside the model. \<open>ocr_processor_process_body\<close> is the body of the
  \<^verbatim>\<open>try\<close> statement, \<open>ocr_processor_process_receipt\<close> adds the handler
  \<^verbatim>\<open>except Exception as e\<close>.
\<close>

definition ocr_processor_process_body :: "pystr \<Rightarrow> exn + extraction_result" where
  "ocr_processor_process_body text =
     (if text = [] \<or> length (py_strip text) < 10
      then Inr \<lparr>vendor = None, amount = None, date = None, category = ustr ''other'',
                line_items = [], raw_text = text, success = False,
                error = Some (ustr ''Could not extract meaningful text from image'')\<rparr>
      else (case ocr_processor_extract_vendor text of
              Inl e \<Rightarrow> Inl e
            | Inr v \<Rightarrow>
                (case ocr_processor_extract_amount text of
                   Inl e \<Rightarrow> Inl e
                 | Inr a \<Rightarrow>
                     (case ocr_processor_extract_date text of
                        Inl e \<Rightarrow> Inl e
                      | Inr d \<Rightarrow>
                          (case ocr_processor_extract_line_items text of
                             Inl e \<Rightarrow> Inl e
                           | Inr items \<Rightarrow>
                               Inr \<lparr>vendor = v, amount = a, date = d,
                                    category = ocr_processor_classify_category v text,
                                    line_items = items, raw_text = text, success = True,
                                    error = None\<rparr>)))))"

definition ocr_processor_process_receipt :: "pystr \<Rightarrow> extraction_result" where
  "ocr_processor_process_receipt text =
     (case ocr_processor_process_body text of
        Inr r \<Rightarrow> r
      | Inl e \<Rightarrow>
          \<lparr>vendor = None, amount = None, date = None, category = ustr ''other'',
           line_items = [], raw_text = [], success = False, error = Some (exn_str e)\<rparr>)"


section \<open>Module \<^verbatim>\<open>simple_ocr\<close>\<close>

subsection \<open>\<^verbatim>\<open>extract_vendor\<close>\<close>

text \<open>The body of the loop that looks for the line with the recipient details.\<close>

definition simple_ocr_recipient_line :: "pystr \<Rightarrow> pystr option" where
  "simple_ocr_recipient_line line =
     (if py_in (ustr ''recipient details'') (py_lower line)
      then (case split_once (ustr ''Details'') line of
              None \<Rightarrow> None
            | Some (before, after) \<Rightarrow>
                (if length (py_strip after) > 3 then Some (py_strip after) else None))
      else None)"

text \<open>\<^verbatim>\<open>[A-Z][A-Za-z\s&.-]+\<close>\<close>

definition simple_ocr_mixed_name :: regex where
  "simple_ocr_mixed_name =
     Seq (Cls [cls_AZ])
         (Plus (Cls [cls_AZ, cls_az, CSpace, CChar (ch CHR ''&''), CChar (ch CHR ''.''),
                     CChar (ch CHR ''-'')]))"

definition simple_ocr_recipient_patterns :: "re_pattern list" where
  "simple_ocr_recipient_patterns =
     [\<lparr>p_regex = rx_seq [Str ''recipient'', Plus space, Str ''details'', Plus space,
                          Grp 1 (Seq upper_name company_suffix)],
       p_groups = 1\<rparr>,
      \<lparr>p_regex = Grp 1 (rx_seq [simple_ocr_mixed_name,
                                rx_alt [Seq (Str ''STORE'') (Opt (Lit (ch CHR ''S''))),
                                        Str ''SHOPPING'',
                                        Seq (Str ''COMMUNICATION'') (Opt (Lit (ch CHR ''S''))),
                                        Str ''BANK'', Str ''NIGERIA''],
                                Opt (Seq (Plus space) (Words [''LIMITED'', ''LTD'', ''PLC'']))]),
       p_groups = 1\<rparr>]"

definition simple_ocr_vendor_patterns :: "re_pattern list" where
  "simple_ocr_vendor_patterns =
     [\<lparr>p_regex = Grp 1 (Seq simple_ocr_mixed_name
                            (Words [''Corporation'', ''Corp'', ''Ltd'', ''Limited'', ''Inc'', ''Company'',
                                    ''LLC'', ''PLC''])),
       p_groups = 1\<rparr>,
      \<lparr>p_regex = Grp 1 (rx_seq [Str ''Railway'', Plus space, Str ''Corporation'']), p_groups = 1\<rparr>,
      \<lparr>p_regex = Grp 1 (rx_seq [Cls [cls_AZ], Rep (Cls [cls_AZ, CSpace]) 2 20, company_suffix]),
       p_groups = 1\<rparr>]"

definition simple_ocr_recipient_match :: "pystr \<Rightarrow> pystr option" where
  "simple_ocr_recipient_match m = (if length (py_strip m) > 3 then Some (py_strip m) else None)"

definition simple_ocr_vendor_match :: "pystr \<Rightarrow> pystr option" where
  "simple_ocr_vendor_match m =
     (if length (py_strip m) > 3 \<and> \<not> py_in (ustr ''bank'') (py_lower (py_strip m))
      then Some (py_strip m) else None)"

text \<open>
  The body of the loop over the first five lines. The ratio divides by the number of
  characters of the line that are not the space character.
\<close>

definition simple_ocr_upper_line :: "pystr \<Rightarrow> exn + pystr option" where
  "simple_ocr_upper_line line =
     (if any_in [''invoice'', ''receipt'', ''transaction'', ''date'', ''bill to'', ''@''] (py_lower line)
      then Inr None
      else if length line > 3 \<and> length line < 50
      then (if length (filter (\<lambda>c. c \<noteq> 32) line) = 0 then Inl division_by_zero
            else if (of_nat (length (filter ascii_upper line)) :: rat) /
                      of_nat (length (filter (\<lambda>c. c \<noteq> 32) line)) > 1 / 2
            then Inr (Some (py_strip line))
            else Inr None)
      else Inr None)"

definition simple_ocr_extract_vendor :: "pystr \<Rightarrow> exn + pystr option" where
  "simple_ocr_extract_vendor text =
     (if py_in (ustr ''railway corporation'') (py_lower text) then Inr (Some (ustr ''Railway Corporation''))
      else if py_in (ustr ''electro galactica'') (py_lower text)
      then Inr (Some (ustr ''Electro Galactica Company LTD''))
      else (case first_some simple_ocr_recipient_line (stripped_lines text) of
              Some v \<Rightarrow> Inr (Some v)
            | None \<Rightarrow>
          (case first_some (\<lambda>pat. first_some simple_ocr_recipient_match (re_findall True False pat text))
                  simple_ocr_recipient_patterns of
              Some v \<Rightarrow> Inr (Some v)
            | None \<Rightarrow>
          (if any_in [''opay'', ''pay transaction'', ''#''] (py_lower text) \<and>
              py_in (ustr ''recipient'') (py_lower text)
           then Inr (Some (ustr ''OPay''))
           else
          (case first_some (\<lambda>pat. first_some simple_ocr_vendor_match (re_findall True False pat text))
                  simple_ocr_vendor_patterns of
              Some v \<Rightarrow> Inr (Some v)
            | None \<Rightarrow> first_result simple_ocr_upper_line (take 5 (stripped_lines text)))))))"

subsection \<open>\<^verbatim>\<open>extract_amount\<close>\<close>

definition simple_ocr_amount_patterns :: "re_pattern list" where
  "simple_ocr_amount_patterns =
     [\<lparr>p_regex = rx_seq [Str ''Amount'', Plus space, Str ''due'', Plus space, Lit (ch CHR ''$''),
                          Grp 1 num, Star space, Str ''USD''],
       p_groups = 1\<rparr>,
      \<lparr>p_regex = rx_seq [Lit (ch CHR ''$''), Grp 1 num, Star space, Str ''USD'', Plus space, Str ''due''],
       p_groups = 1\<rparr>,
      \<lparr>p_regex = rx_seq [Str ''Total'', Plus space, Lit (ch CHR ''$''), Grp 1 num], p_groups = 1\<rparr>,
      \<lparr>p_regex = rx_seq [Str ''Amount'', Plus space, Str ''due'', Plus space, Lit (ch CHR ''$''),
                          Grp 1 num],
       p_groups = 1\<rparr>,
      \<lparr>p_regex = rx_seq [Lit naira, Star space, Grp 1 num], p_groups = 1\<rparr>,
      \<lparr>p_regex = rx_seq [Lit (ch CHR ''#''), Grp 1 num], p_groups = 1\<rparr>,
      \<lparr>p_regex = rx_seq [Lit (ch CHR ''#''), Grp 1 (Plus (Cls [cls_09, CChar (ch CHR '','')]))],
       p_groups = 1\<rparr>,
      \<lparr>p_regex = rx_seq [Grp 1 num, Star space, Str ''naira''], p_groups = 1\<rparr>,
      \<lparr>p_regex = rx_seq [Str ''total'', Star colon_space, Opt (Lit (ch CHR ''$'')), Grp 1 num],
       p_groups = 1\<rparr>,
      \<lparr>p_regex = rx_seq [Str ''amount'', Star colon_space, Opt (Lit (ch CHR ''$'')), Grp 1 num],
       p_groups = 1\<rparr>]"

text \<open>
  The body of the loop over the matches: \<open>None\<close> when \<^verbatim>\<open>float\<close> raises
  \<^verbatim>\<open>ValueError\<close> (caught, \<^verbatim>\<open>continue\<close>) or the value is out of range.
\<close>

definition simple_ocr_amount_of_match :: "pystr \<Rightarrow> rat option" where
  "simple_ocr_amount_of_match m =
     (case py_float (remove_commas m) of
        None \<Rightarrow> None
      | Some amt \<Rightarrow> (if 1 / 100 \<le> amt \<and> amt \<le> 10000000 then Some amt else None))"

definition simple_ocr_amounts_found :: "pystr \<Rightarrow> rat list" where
  "simple_ocr_amounts_found text =
     List.map_filter simple_ocr_amount_of_match
       (concat (map (\<lambda>pat. re_findall True False pat text) simple_ocr_amount_patterns))"

definition simple_ocr_extract_amount :: "pystr \<Rightarrow> rat option" where
  "simple_ocr_extract_amount text =
     (case simple_ocr_amounts_found text of
        [] \<Rightarrow> None
      | a # as \<Rightarrow> Some (foldl max a as))"

subsection \<open>\<^verbatim>\<open>extract_date\<close>\<close>

definition simple_ocr_date_patterns :: "re_pattern list" where
  "simple_ocr_date_patterns =
     [\<lparr>p_regex = Grp 1 (rx_seq [Words [''January'', ''February'', ''March'', ''April'', ''May'', ''June'',
                                       ''July'', ''August'', ''September'', ''October'', ''November'',
                                       ''December''],
                                Plus space, Rep digit 1 2, Opt (Lit (ch CHR '','')), Plus space,
                                Rep digit 4 4]),
       p_groups = 1\<rparr>,
      \<lparr>p_regex = Grp 1 (rx_seq [month3, Opt (Lit (ch CHR ''-'')), Rep digit 1 2, Opt ordinal,
                                Opt (Lit (ch CHR '','')), Plus space, Rep digit 4 4, Plus space,
                                Rep digit 1 2, Lit (ch CHR '':''), Rep digit 2 2, Lit (ch CHR '':''),
                                Rep digit 2 2]),
       p_groups = 1\<rparr>,
      \<lparr>p_regex = Grp 1 (rx_seq [month3, Plus space, Rep digit 1 2, ordinal, Opt (Lit (ch CHR '','')),
                                Plus space, Rep digit 4 4]),
       p_groups = 1\<rparr>,
      \<lparr>p_regex = Grp 1 (rx_seq [month3, Star space, Opt (Lit (ch CHR ''-'')), Rep digit 1 2,
                                Opt ordinal, Opt (Lit (ch CHR '','')), Plus space, Rep digit 4 4]),
       p_groups = 1\<rparr>,
      date_numeric,
      date_iso]"

definition simple_ocr_date_of_pattern :: "pystr \<Rightarrow> re_pattern \<Rightarrow> exn + pystr option" where
  "simple_ocr_date_of_pattern text pat =
     (case re_search True False pat text of
        None \<Rightarrow> Inr None
      | Some m \<Rightarrow>
          (case m_group m 1 of
             None \<Rightarrow> Inl (none_has_no_attribute ''strip'')
           | Some g \<Rightarrow> Inr (Some (py_strip g))))"

definition simple_ocr_extract_date :: "pystr \<Rightarrow> exn + pystr option" where
  "simple_ocr_extract_date text =
     first_result (simple_ocr_date_of_pattern text) simple_ocr_date_patterns"

subsection \<open>\<^verbatim>\<open>classify_category\<close>\<close>

definition simple_ocr_vendor_categories :: "(string \<times> string list) list" where
  "simple_ocr_vendor_categories =
     [(''technology'', [''railway'', ''hosting'', ''domain'', ''server'', ''cloud'', ''software'',
                        ''railway corporation'']),
      (''electronics'', [''electro'', ''galactica'', ''electronics'', ''computer'', ''tech'']),
      (''groceries'', [''shoprite'', ''grocery'', ''supermarket'', ''food'', ''market'', ''stores'']),
      (''retail'', [''konga'', ''jumia'', ''amazon'', ''shop'', ''mall'', ''boutique'', ''shopping'',
                    ''online shopping'']),
      (''utilities'', [''mtn'', ''airtel'', ''glo'', ''communications'', ''telecom'', ''electric'', ''water'',
                       ''internet'', ''phone'']),
      (''financial'', [''bank'', ''first bank'', ''access bank'', ''gtbank'', ''zenith bank'']),
      (''restaurant'', [''restaurant'', ''cafe'', ''dining'', ''bar'', ''kfc'', ''dominos'']),
      (''fuel'', [''gas'', ''fuel'', ''petrol'', ''filling station'', ''mobil'', ''total'', ''oando'']),
      (''transportation'', [''uber'', ''bolt'', ''taxi'', ''transport'', ''airline''])]"

definition simple_ocr_general_categories :: "(string \<times> string list) list" where
  "simple_ocr_general_categories =
     [(''financial'', [''opay'', ''mobile money'', ''wallet'', ''payment app'']),
      (''personal'', [''opay | 7'', ''opay | 8'', ''opay | 9'']),
      (''business'', [''company ltd'', ''limited'', ''corporation'', ''enterprise''])]"

definition simple_ocr_company_indicators :: "string list" where
  "simple_ocr_company_indicators =
     [''ltd'', ''limited'', ''inc'', ''corp'', ''company'', ''plc'', ''stores'', ''bank'',
      ''communications'']"

text \<open>\<^verbatim>\<open>vendor and len(vendor.split()) >= 2\<close> and no company indicator in the vendor.\<close>

definition simple_ocr_personal_name :: "pystr option \<Rightarrow> bool" where
  "simple_ocr_personal_name v =
     (case v of
        None \<Rightarrow> False
      | Some s \<Rightarrow> s \<noteq> [] \<and> count_words False s \<ge> 2 \<and>
                  \<not> any_in simple_ocr_company_indicators (py_lower s))"

definition simple_ocr_classify_category :: "pystr option \<Rightarrow> pystr \<Rightarrow> pystr" where
  "simple_ocr_classify_category v text =
     (case first_category simple_ocr_vendor_categories (py_lower (vendor_or_empty v)) of
        Some c \<Rightarrow> c
      | None \<Rightarrow>
          (if simple_ocr_personal_name v then ustr ''personal''
           else (case first_category simple_ocr_general_categories (py_lower text) of
                   Some c \<Rightarrow> c
                 | None \<Rightarrow> ustr ''other'')))"

subsection \<open>\<^verbatim>\<open>process_receipt\<close>\<close>

text \<open>
  The first argument is the result of \<^verbatim>\<open>get_file_type(file_path)\<close>, the second the text
  that \<^verbatim>\<open>extract_text_from_pdf\<close> or \<^verbatim>\<open>extract_text_from_image\<close> delivers for the file;
  reading the file is outside the model.
\<close>

datatype file_type = Pdf | Image | Unknown

definition simple_ocr_process_body :: "file_type \<Rightarrow> pystr \<Rightarrow> exn + extraction_result" where
  "simple_ocr_process_body ft text =
     (if ft = Unknown
      then Inr \<lparr>vendor = None, amount = None, date = None, category = ustr ''other'',
                line_items = [], raw_text = [], success = False,
                error = Some (ustr ''Unsupported file type'')\<rparr>
      else if text = [] \<or> length (py_strip text) < 10
      then Inr \<lparr>vendor = None, amount = None, date = None, category = ustr ''other'',
                line_items = [], raw_text = text, success = False,
                error = Some (ustr ''Could not extract meaningful text from file'')\<rparr>
      else (case simple_ocr_extract_vendor text of
              Inl e \<Rightarrow> Inl e
            | Inr v \<Rightarrow>
                (case simple_ocr_extract_date text of
                   Inl e \<Rightarrow> Inl e
                 | Inr d \<Rightarrow>
                     Inr \<lparr>vendor = v, amount = simple_ocr_extract_amount text, date = d,
                          category = simple_ocr_classify_category v text,
                          line_items = [], raw_text = text, success = True, error = None\<rparr>)))"

definition simple_ocr_process_receipt :: "file_type \<Rightarrow> pystr \<Rightarrow> extraction_result" where
  "simple_ocr_process_receipt ft text =
     (case simple_ocr_process_body ft text of
        Inr r \<Rightarrow> r
      | Inl e \<Rightarrow>
          \<lparr>vendor = None, amount = None, date = None, category = ustr ''other'',
           line_items = [], raw_text = [], success = False, error = Some (exn_str e)\<rparr>)"


section \<open>Example texts\<close>

definition scenario1 :: pystr where
  "scenario1 = ustr ''TOTAL: $12.34'' @ [10] @ ustr ''Big Store LTD'' @ [10] @ ustr ''2024-12-31''"

definition seven_thousand_naira :: pystr where
  "seven_thousand_naira = naira # ustr ''7,000.00''"

text \<open>A naira sign followed by a lone comma, then a well-formed amount.\<close>

definition unparsable_then_five :: pystr where
  "unparsable_then_five = naira # ustr '', '' @ naira # ustr ''5.00''"

text \<open>Lines with the recipient label in lower case and in upper case.\<close>

definition lower_label_line :: pystr where
  "lower_label_line = ustr ''recipient details john smith''"

definition upper_label_line :: pystr where
  "upper_label_line = ustr ''RECIPIENT DETAILS JOHN SMITH''"

definition opay_transfer :: pystr where
  "opay_transfer = ustr ''Recipient Details John Smith'' @ [10] @ ustr ''opay''"

definition opay_receipt :: pystr where
  "opay_receipt = ustr ''opay recipient 0801234''"

definition two_item_lines :: pystr where
  "two_item_lines = ustr ''Big Pack Pcs 2 800.00'' @ [10] @ ustr ''Rice 1500.00''"

definition big_pack_item :: line_item where
  "big_pack_item = \<lparr>name = ustr ''Big Pack'', quantity = 2, unit_price = 400, total_price = 800\<rparr>"

definition rice_item :: line_item where
  "rice_item = \<lparr>name = ustr ''Rice'', quantity = 1, unit_price = 1500, total_price = 1500\<rparr>"

section \<open>Evaluation on concrete texts\<close>

lemma rx_upto_numeral: "rx_upto r (numeral k) = Opt (Seq r (rx_upto r (pred_numeral k)))"
  by (simp add: numeral_eq_Suc)

lemma rx_times_numeral: "rx_times r (numeral k) t = Seq r (rx_times r (pred_numeral k) t)"
  by (simp add: numeral_eq_Suc)

lemma replicate_num: "replicate (numeral k) x = x # replicate (pred_numeral k) x"
  by (simp add: numeral_eq_Suc)

lemmas py_eval =
  replicate_num ustr_def ch_def naira_def py_isspace_def ascii_digit_def ascii_upper_def
  ascii_lower_def py_strip_def lower_char_def upper_char_def py_lower_def any_in_def
  stripped_lines_def py_title_def py_isdigit_def slice_def remove_commas_def digits_value_def
  py_int_def py_float_def float_error_def none_has_no_attribute_def int_of_none_def
  division_by_zero_def list_index_out_of_range_def vendor_or_empty_def

lemmas rx_eval =
  re_variants_def lit_match_def cls_match_def Str_def Words_def Plus_def LazyPlus_def Opt_def
  Rep_def rx_upto_numeral rx_times_numeral re_search_def re_match_def re_finditer_def
  m_group_def re_findall_def re_sub_outside_def digit_def space_def cls_09_def cls_AZ_def
  cls_az_def num_def colon_space_def ordinal_def month3_def company_suffix_def upper_name_def
  dash_slash_def date_numeric_def date_iso_def

lemmas ocr_processor_eval =
  ocr_processor_vendor_group_def ocr_processor_vendor_patterns_def
  ocr_processor_vendor_of_match_def ocr_processor_vendor_chars_def ocr_processor_upper_line_def
  ocr_processor_meaningful_line_def ocr_processor_extract_vendor_def
  ocr_processor_grouped_number_def ocr_processor_amount_patterns_def
  ocr_processor_amount_of_match_def ocr_processor_amounts_def ocr_processor_text_around_def
  ocr_processor_final_score_def ocr_processor_significant_def ocr_processor_final_amounts_def
  ocr_processor_select_amount_def ocr_processor_extract_amount_def ocr_processor_nov_def
  ocr_processor_date_patterns_def ocr_processor_date_of_pattern_def
  ocr_processor_extract_date_def ocr_processor_categories_def
  ocr_processor_classify_category_def ocr_processor_item_name_def
  ocr_processor_item_patterns_def ocr_processor_price_def ocr_processor_line_item_def
  ocr_processor_extract_line_items_def

lemmas simple_ocr_eval =
  simple_ocr_recipient_line_def simple_ocr_mixed_name_def simple_ocr_recipient_patterns_def
  simple_ocr_vendor_patterns_def simple_ocr_recipient_match_def simple_ocr_vendor_match_def
  simple_ocr_upper_line_def simple_ocr_extract_vendor_def simple_ocr_amount_patterns_def
  simple_ocr_amount_of_match_def simple_ocr_amounts_found_def simple_ocr_extract_amount_def
  simple_ocr_date_patterns_def simple_ocr_date_of_pattern_def simple_ocr_extract_date_def
  simple_ocr_vendor_categories_def simple_ocr_general_categories_def
  simple_ocr_company_indicators_def simple_ocr_personal_name_def
  simple_ocr_classify_category_def

text \<open>
  The line \<^verbatim>\<open>Candy 5.00\<close>: the second pattern gives a total below 10, so the loop goes
  on to the third pattern, whose optional second group takes no part in the match; the
  branch for three groups then calls \<^verbatim>\<open>replace\<close> on \<^verbatim>\<open>None\<close>.
\<close>

lemma candy_line_items:
  "ocr_processor_extract_line_items (ustr ''Candy 5.00'') = Inl (none_has_no_attribute ''replace'')"
  by (simp add: ocr_processor_eval py_eval rx_eval)

lemma candy_vendor:
  "ocr_processor_extract_vendor (ustr ''Candy 5.00'') = Inr (Some (ustr ''Candy 5.00''))"
  by (simp add: ocr_processor_eval py_eval rx_eval)

lemma candy_amount: "ocr_processor_extract_amount (ustr ''Candy 5.00'') = Inr None"
  by (simp add: ocr_processor_eval py_eval rx_eval)

lemma candy_date: "ocr_processor_extract_date (ustr ''Candy 5.00'') = Inr None"
  by (simp add: ocr_processor_eval py_eval rx_eval)

lemma candy_long_enough: "ustr ''Candy 5.00'' \<noteq> [] \<and> \<not> length (py_strip (ustr ''Candy 5.00'')) < 10"
  by (simp add: py_eval)

lemma candy_body:
  "ocr_processor_process_body (ustr ''Candy 5.00'') = Inl (none_has_no_attribute ''replace'')"
  unfolding ocr_processor_process_body_def
  using candy_long_enough
  by (simp add: candy_vendor candy_amount candy_date candy_line_items)


section \<open>The module \<^verbatim>\<open>simple_ocr\<close> raises no exception\<close>

lemma close_group_length: "length (ms_groups (close_group i p s st)) = length (ms_groups st)"
  by (cases st) simp

lemma continuation_witness:
  "k (MS p' q' s' g) = Some y \<Longrightarrow>
   \<exists>st'. length (ms_groups st') = length (ms_groups (MS p q s g)) \<and> k st' = Some y"
  by (intro exI [of _ "MS p' q' s' g"]) simp

lemma rx_continuation:
  "rx ic ml r st k = Some y \<Longrightarrow>
   \<exists>st'. length (ms_groups st') = length (ms_groups st) \<and> k st' = Some y"
proof (induction ic ml r st k arbitrary: y rule: rx.induct)
  case (6 ic ml r1 r2 p q s g k)
  from "6.prems" have "rx ic ml r1 (MS p q s g) (\<lambda>st'. rx ic ml r2 st' k) = Some y"
    by simp
  from "6.IH"(2) [OF this] obtain st'
    where len: "length (ms_groups st') = length (ms_groups (MS p q s g))"
      and r2: "rx ic ml r2 st' k = Some y"
    by blast
  from "6.IH"(1) [OF r2] len show ?case
    by auto
next
  case (7 ic ml r1 r2 p q s g k)
  then show ?case
    by (fastforce split: option.splits)
next
  case (8 ic ml r p q s g k)
  show ?case
  proof (cases "rx ic ml r (MS p q s g)
             (\<lambda>st'. if rest_len st' < length s then rx ic ml (Star r) st' k else None)")
    case None
    with "8.prems" have "k (MS p q s g) = Some y" by simp
    then show ?thesis
      by (intro exI [of _ "MS p q s g"]) simp
  next
    case (Some z)
    with "8.prems" have zy: "z = y" by simp
    from "8.IH"(2) [OF Some] obtain st'
      where len: "length (ms_groups st') = length (ms_groups (MS p q s g))"
        and c: "(if rest_len st' < length s then rx ic ml (Star r) st' k else None) = Some z"
      by blast
    from c have lt: "rest_len st' < length s" and star: "rx ic ml (Star r) st' k = Some z"
      by (auto split: if_splits)
    from "8.IH"(1) [OF lt star] len zy show ?thesis
      by auto
  qed
next
  case (9 ic ml r p q s g k)
  show ?case
  proof (cases "k (MS p q s g)")
    case (Some z)
    with "9.prems" have "k (MS p q s g) = Some y" by simp
    then show ?thesis
      by (intro exI [of _ "MS p q s g"]) simp
  next
    case None
    with "9.prems" have run: "rx ic ml r (MS p q s g)
             (\<lambda>st'. if rest_len st' < length s then rx ic ml (LazyStar r) st' k else None) = Some y"
      by simp
    from "9.IH"(2) [OF None run] obtain st'
      where len: "length (ms_groups st') = length (ms_groups (MS p q s g))"
        and c: "(if rest_len st' < length s then rx ic ml (LazyStar r) st' k else None) = Some y"
      by blast
    from c have lt: "rest_len st' < length s" and star: "rx ic ml (LazyStar r) st' k = Some y"
      by (auto split: if_splits)
    from "9.IH"(1) [OF None lt star] len show ?thesis
      by auto
  qed
next
  case (10 ic ml i r p q s g k)
  from "10.IH" [OF "10.prems" [simplified]] obtain st'
    where "length (ms_groups st') = length (ms_groups (MS p q s g))"
      and "k (close_group i p s st') = Some y"
    by blast
  then show ?case
    by (intro exI [of _ "close_group i p s st'"]) (simp add: close_group_length)
next
  case (1 ic ml p q s g k)
  then have "k (MS p q s g) = Some y"
    by simp
  then show ?case
    by (rule continuation_witness)
next
  case (3 ic ml c p q x xs g k)
  then have "k (MS (p + 1) (Some x) xs g) = Some y"
    by (simp split: if_splits)
  then show ?case
    by (rule continuation_witness)
next
  case (5 ic ml items p q x xs g k)
  then have "k (MS (p + 1) (Some x) xs g) = Some y"
    by (simp split: if_splits)
  then show ?case
    by (rule continuation_witness)
next
  case (11 ic ml p q s g k)
  then have "k (MS p q s g) = Some y"
    by (simp split: if_splits)
  then show ?case
    by (rule continuation_witness)
next
  case (12 ic ml p q s g k)
  then have "k (MS p q s g) = Some y"
    by (simp split: if_splits)
  then show ?case
    by (rule continuation_witness)
qed simp_all


lemma grouped_search_sets_group:
  assumes "p_regex pat = Grp 1 r" and "p_groups pat = 1"
    and "re_search_from ic ml pat p q s = Some (b, st)"
  shows "\<exists>x. m_group (st_match b st) 1 = Some x"
  using assms(3)
proof (induction s arbitrary: p q)
  case Nil
  then have "rx ic ml (Grp 1 r) (MS p q [] [None]) Some = Some st"
    using assms(1,2) by (simp split: option.splits)
  then have "rx ic ml r (MS p q [] [None]) (\<lambda>st'. Some (close_group 1 p [] st')) = Some st"
    by simp
  from rx_continuation [OF this] obtain st'
    where "length (ms_groups st') = 1" and "st = close_group 1 p [] st'"
    by auto
  then show ?case
    by (cases st') (simp add: m_group_def)
next
  case (Cons x xs)
  show ?case
  proof (cases "rx ic ml (Grp 1 r) (MS p q (x # xs) [None]) Some")
    case None
    with Cons.prems assms(1,2) have "re_search_from ic ml pat (p + 1) (Some x) xs = Some (b, st)"
      by simp
    from Cons.IH [OF this] show ?thesis .
  next
    case (Some z)
    with Cons.prems assms(1,2) have "z = st"
      by simp
    with Some have "rx ic ml r (MS p q (x # xs) [None])
        (\<lambda>st'. Some (close_group 1 p (x # xs) st')) = Some st"
      by simp
    from rx_continuation [OF this] obtain st'
      where "length (ms_groups st') = 1" and "st = close_group 1 p (x # xs) st'"
      by auto
    then show ?thesis
      by (cases st') (simp add: m_group_def)
  qed
qed

lemma first_result_all_Inr:
  "(\<And>x. x \<in> set xs \<Longrightarrow> \<exists>r. f x = Inr r) \<Longrightarrow> \<exists>r. first_result f xs = Inr r"
proof (induction xs)
  case Nil
  then show ?case by simp
next
  case (Cons x xs)
  from Cons.prems [of x] obtain r where r: "f x = Inr r" by auto
  show ?case
  proof (cases r)
    case None
    with r Cons show ?thesis by simp
  next
    case (Some v)
    with r show ?thesis by simp
  qed
qed

lemma simple_ocr_date_patterns_grouped:
  "pat \<in> set simple_ocr_date_patterns \<Longrightarrow> \<exists>r. p_regex pat = Grp 1 r \<and> p_groups pat = 1"
  by (auto simp add: simple_ocr_date_patterns_def date_numeric_def date_iso_def)

lemma simple_ocr_extract_date_returns: "\<exists>d. simple_ocr_extract_date text = Inr d"
  unfolding simple_ocr_extract_date_def
proof (rule first_result_all_Inr)
  fix pat assume "pat \<in> set simple_ocr_date_patterns"
  from simple_ocr_date_patterns_grouped [OF this] obtain r
    where g: "p_regex pat = Grp 1 r" "p_groups pat = 1"
    by blast
  show "\<exists>r. simple_ocr_date_of_pattern text pat = Inr r"
  proof (cases "re_search_from True False pat 0 None text")
    case None
    then show ?thesis
      by (simp add: simple_ocr_date_of_pattern_def re_search_def)
  next
    case (Some bst)
    obtain b st where "bst = (b, st)" by (cases bst)
    with Some grouped_search_sets_group [OF g, of True False 0 None "text" b st]
    show ?thesis
      by (auto simp add: simple_ocr_date_of_pattern_def re_search_def)
  qed
qed

lemma py_strip_head:
  assumes "py_strip s \<noteq> []"
  shows "\<not> py_isspace (hd (py_strip s))"
proof -
  let ?t = "dropWhile py_isspace s"
  have "py_strip s = []" if "?t = []"
    unfolding py_strip_def that by simp
  with assms have t: "?t \<noteq> []"
    by blast
  then obtain x t' where xt: "?t = x # t'"
    by (cases ?t) auto
  have nsp: "\<not> py_isspace x"
    using xt by (metis hd_dropWhile list.sel(1) list.distinct(1))
  have "dropWhile py_isspace (rev t' @ [x]) = dropWhile py_isspace (rev t') @ [x]"
    using nsp by (simp add: dropWhile_append)
  then have "py_strip s = x # rev (dropWhile py_isspace (rev t'))"
    using xt by (simp add: py_strip_def)
  with nsp show ?thesis
    by simp
qed

lemma stripped_line_has_non_space:
  assumes "line \<in> set (stripped_lines text)"
  shows "filter (\<lambda>c. c \<noteq> 32) line \<noteq> []"
proof -
  from assms obtain l where l: "line = py_strip l" and ne: "py_strip l \<noteq> []"
    by (auto simp add: stripped_lines_def)
  from py_strip_head [OF ne] have "hd line \<noteq> 32"
    using l by (auto simp add: py_isspace_def)
  moreover from l ne have "hd line \<in> set line"
    by simp
  ultimately show ?thesis
    by (auto simp add: filter_empty_conv)
qed

lemma simple_ocr_extract_vendor_returns: "\<exists>v. simple_ocr_extract_vendor text = Inr v"
proof -
  have "\<exists>r. first_result simple_ocr_upper_line (take 5 (stripped_lines text)) = Inr r"
  proof (rule first_result_all_Inr)
    fix line assume "line \<in> set (take 5 (stripped_lines text))"
    then have "line \<in> set (stripped_lines text)"
      by (rule in_set_takeD)
    from stripped_line_has_non_space [OF this]
    show "\<exists>r. simple_ocr_upper_line line = Inr r"
      by (simp add: simple_ocr_upper_line_def)
  qed
  then show ?thesis
    by (auto simp add: simple_ocr_extract_vendor_def split: option.splits)
qed

lemma simple_ocr_body_returns: "\<exists>r. simple_ocr_process_body ft text = Inr r"
  using simple_ocr_extract_vendor_returns [of "text"] simple_ocr_extract_date_returns [of "text"]
  by (auto simp add: simple_ocr_process_body_def)


section \<open>The pipeline boundary\<close>

text \<open>
  Claim C1. \<^verbatim>\<open>process_receipt\<close> always returns a result record: when the body of its
  \<^verbatim>\<open>try\<close> statement raises an exception \<open>e\<close>, the result is the failure record with
  \<open>success = False\<close> and the message of \<open>e\<close> in \<open>error\<close>; when the body
  returns a record, that record is the result. This holds for both modules; the body of
  \<^verbatim>\<open>simple_ocr\<close> raises no exception on any text.
\<close>

theorem process_receipt_catches_faults:
  "(case ocr_processor_process_body text of
      Inl e \<Rightarrow>
        ocr_processor_process_receipt text =
          \<lparr>vendor = None, amount = None, date = None, category = ustr ''other'', line_items = [],
           raw_text = [], success = False, error = Some (exn_str e)\<rparr>
    | Inr r \<Rightarrow> ocr_processor_process_receipt text = r) \<and>
   (case simple_ocr_process_body ft text of
      Inl e \<Rightarrow>
        simple_ocr_process_receipt ft text =
          \<lparr>vendor = None, amount = None, date = None, category = ustr ''other'', line_items = [],
           raw_text = [], success = False, error = Some (exn_str e)\<rparr>
    | Inr r \<Rightarrow> simple_ocr_process_receipt ft text = r) \<and>
   (\<exists>r. simple_ocr_process_body ft text = Inr r)"
  using simple_ocr_body_returns [of ft "text"]
  by (simp add: ocr_processor_process_receipt_def simple_ocr_process_receipt_def split: sum.split)

text \<open>
  The text \<^verbatim>\<open>Candy 5.00\<close> makes the line item extractor of \<^verbatim>\<open>ocr_processor\<close> raise
  \<^verbatim>\<open>AttributeError\<close>; the result carries its message.
\<close>

theorem process_receipt_catches_faults_witness:
  "ocr_processor_process_body (ustr ''Candy 5.00'') = Inl (none_has_no_attribute ''replace'') \<and>
   success (ocr_processor_process_receipt (ustr ''Candy 5.00'')) = False \<and>
   error (ocr_processor_process_receipt (ustr ''Candy 5.00'')) =
     Some ([39] @ ustr ''NoneType'' @ [39] @ ustr '' object has no attribute '' @ [39] @
           ustr ''replace'' @ [39])"
  using process_receipt_catches_faults [of "ustr ''Candy 5.00''" Pdf]
  by (simp add: candy_body) (simp add: none_has_no_attribute_def)

text \<open>
  Claim C2. For a text that is empty or whose stripped length is below 10,
  \<^verbatim>\<open>process_receipt\<close> returns \<open>success = False\<close>, the fixed message that starts
  \<^verbatim>\<open>Could not extract meaningful text\<close>, no vendor, amount or date, no line items, the
  category \<^verbatim>\<open>other\<close>, and the given text as \<open>raw_text\<close>. In \<^verbatim>\<open>simple_ocr\<close> the
  text exists only for a supported file type.
\<close>

theorem process_receipt_insufficient_text:
  assumes "text = [] \<or> length (py_strip text) < 10"
  shows "ocr_processor_process_receipt text =
           \<lparr>vendor = None, amount = None, date = None, category = ustr ''other'', line_items = [],
            raw_text = text, success = False,
            error = Some (ustr ''Could not extract meaningful text from image'')\<rparr> \<and>
         (ft \<noteq> Unknown \<longrightarrow>
          simple_ocr_process_receipt ft text =
            \<lparr>vendor = None, amount = None, date = None, category = ustr ''other'', line_items = [],
             raw_text = text, success = False,
             error = Some (ustr ''Could not extract meaningful text from file'')\<rparr>)"
  using assms
  by (auto simp add: ocr_processor_process_receipt_def ocr_processor_process_body_def
      simple_ocr_process_receipt_def simple_ocr_process_body_def)

theorem process_receipt_insufficient_text_witness:
  "length (py_strip (ustr ''hi'')) < 10 \<and>
   ocr_processor_process_receipt (ustr ''hi'') =
     \<lparr>vendor = None, amount = None, date = None, category = ustr ''other'', line_items = [],
      raw_text = ustr ''hi'', success = False,
      error = Some (ustr ''Could not extract meaningful text from image'')\<rparr> \<and>
   simple_ocr_process_receipt Pdf (ustr ''hi'') =
     \<lparr>vendor = None, amount = None, date = None, category = ustr ''other'', line_items = [],
      raw_text = ustr ''hi'', success = False,
      error = Some (ustr ''Could not extract meaningful text from file'')\<rparr>"
proof -
  have short: "length (py_strip (ustr ''hi'')) < 10"
    by (simp add: py_eval)
  then have "ustr ''hi'' = [] \<or> length (py_strip (ustr ''hi'')) < 10"
    by simp
  from process_receipt_insufficient_text [OF this, of Pdf] short show ?thesis
    by simp
qed

text \<open>
  Claim C8, as stated, fails: when the handler of \<^verbatim>\<open>process_receipt\<close> catches an
  exception it returns the empty string as \<open>raw_text\<close>, not the input text.
\<close>

theorem raw_text_lost_counterexample:
  "raw_text (ocr_processor_process_receipt (ustr ''Candy 5.00'')) \<noteq> ustr ''Candy 5.00''"
  by (simp add: ocr_processor_process_receipt_def candy_body) (simp add: ustr_def)

lemma ocr_processor_body_raw_text:
  "ocr_processor_process_body text = Inr r \<Longrightarrow> raw_text r = text"
  by (auto simp add: ocr_processor_process_body_def split: if_splits sum.splits)

lemma simple_ocr_body_raw_text:
  "ft \<noteq> Unknown \<Longrightarrow> simple_ocr_process_body ft text = Inr r \<Longrightarrow> raw_text r = text"
  by (auto simp add: simple_ocr_process_body_def split: if_splits sum.splits)

text \<open>
  Claim C8, amended. In \<^verbatim>\<open>simple_ocr\<close> the result of \<^verbatim>\<open>process_receipt\<close> has
  \<open>raw_text\<close> equal to the input text, on success and on failure. In
  \<^verbatim>\<open>ocr_processor\<close> it has \<open>raw_text\<close> equal to the input text whenever the body of
  the \<^verbatim>\<open>try\<close> statement returns (success, and the failure for insufficient text);
  when the handler catches an exception, \<open>raw_text\<close> is the empty string.
\<close>

theorem raw_text_preserved_unless_fault:
  "(case ocr_processor_process_body text of
      Inr r \<Rightarrow> raw_text (ocr_processor_process_receipt text) = text
    | Inl e \<Rightarrow> raw_text (ocr_processor_process_receipt text) = []) \<and>
   (ft \<noteq> Unknown \<longrightarrow> raw_text (simple_ocr_process_receipt ft text) = text)"
proof
  show "case ocr_processor_process_body text of
      Inr r \<Rightarrow> raw_text (ocr_processor_process_receipt text) = text
    | Inl e \<Rightarrow> raw_text (ocr_processor_process_receipt text) = []"
    by (auto simp add: ocr_processor_process_receipt_def ocr_processor_body_raw_text
        split: sum.split)
  show "ft \<noteq> Unknown \<longrightarrow> raw_text (simple_ocr_process_receipt ft text) = text"
  proof
    assume ft: "ft \<noteq> Unknown"
    from simple_ocr_body_returns [of ft "text"] obtain r
      where r: "simple_ocr_process_body ft text = Inr r"
      by blast
    with simple_ocr_body_raw_text [OF ft r]
    show "raw_text (simple_ocr_process_receipt ft text) = text"
      by (simp add: simple_ocr_process_receipt_def)
  qed
qed

section \<open>Line items\<close>

lemma item_values_props:
  "ocr_processor_item_values gs = Inr (Some (nm, qty, up, tot)) \<Longrightarrow>
   0 \<le> qty \<and> up = (if qty > 0 then tot / of_int qty else tot)"
  by (cases gs rule: ocr_processor_item_values.cases)
     (auto simp add: py_int_def split: option.splits sum.splits if_splits)

lemma item_of_line_props:
  "ocr_processor_item_of_line line pats = Inr (Some it) \<Longrightarrow>
   10 \<le> total_price it \<and> 0 \<le> quantity it \<and>
   unit_price it = (if quantity it > 0 then total_price it / of_int (quantity it) else total_price it)"
proof (induction pats)
  case Nil
  then show ?case by simp
next
  case (Cons pat pats)
  show ?case
  proof (cases "re_match True False pat (py_strip line)")
    case None
    with Cons show ?thesis by simp
  next
    case (Some m)
    show ?thesis
    proof (cases "ocr_processor_item_values (m_groups m)")
      case (Inl e)
      with Some Cons.prems show ?thesis by simp
    next
      case (Inr r)
      show ?thesis
      proof (cases r)
        case None
        with Inr Some Cons show ?thesis by simp
      next
        case (Some v)
        obtain nm qty up tot where v: "v = (nm, qty, up, tot)"
          by (cases v) auto
        from Inr Some v have vals: "ocr_processor_item_values (m_groups m) = Inr (Some (nm, qty, up, tot))"
          by simp
        note props = item_values_props [OF vals]
        show ?thesis
        proof (cases nm)
          case None
          with vals \<open>re_match True False pat (py_strip line) = Some m\<close> Cons.prems show ?thesis
            by simp
        next
          case (Some n)
          show ?thesis
          proof (cases "tot < 10")
            case True
            with vals Some \<open>re_match True False pat (py_strip line) = Some m\<close> Cons show ?thesis
              by simp
          next
            case False
            with vals Some \<open>re_match True False pat (py_strip line) = Some m\<close> Cons.prems
            have "it = \<lparr>name = py_title (py_strip n), quantity = qty, unit_price = up, total_price = tot\<rparr>"
              by simp
            with props False show ?thesis by simp
          qed
        qed
      qed
    qed
  qed
qed

lemma line_item_props:
  "ocr_processor_line_item line = Inr (Some it) \<Longrightarrow>
   10 \<le> total_price it \<and> 0 \<le> quantity it \<and>
   unit_price it = (if quantity it > 0 then total_price it / of_int (quantity it) else total_price it)"
  by (auto simp add: ocr_processor_line_item_def dest: item_of_line_props split: if_splits)

lemma collect_Cons_Inr:
  "collect f (x # xs) = Inr ys \<Longrightarrow>
   \<exists>r rs. f x = Inr r \<and> collect f xs = Inr rs \<and> ys = (case r of None \<Rightarrow> rs | Some v \<Rightarrow> v # rs)"
  by (auto split: sum.splits)

lemma collect_members:
  "collect f xs = Inr ys \<Longrightarrow> y \<in> set ys \<Longrightarrow> \<exists>x \<in> set xs. f x = Inr (Some y)"
proof (induction xs arbitrary: ys)
  case Nil
  then show ?case by simp
next
  case (Cons x xs)
  from collect_Cons_Inr [OF Cons.prems(1)] obtain r rs
    where r: "f x = Inr r" and rs: "collect f xs = Inr rs"
      and ys: "ys = (case r of None \<Rightarrow> rs | Some v \<Rightarrow> v # rs)"
    by blast
  show ?case
  proof (cases "y \<in> set rs")
    case True
    with Cons.IH [OF rs] show ?thesis by auto
  next
    case False
    with ys Cons.prems(2) have "r = Some y"
      by (cases r) auto
    with r show ?thesis by simp
  qed
qed

lemma collect_order:
  "collect f xs = Inr ys \<Longrightarrow>
   \<exists>idx. length idx = length ys \<and> sorted_wrt (<) idx \<and>
         (\<forall>k < length ys. idx ! k < length xs \<and> f (xs ! (idx ! k)) = Inr (Some (ys ! k)))"
proof (induction xs arbitrary: ys)
  case Nil
  then show ?case by simp
next
  case (Cons x xs)
  from collect_Cons_Inr [OF Cons.prems] obtain r rs
    where r: "f x = Inr r" and rs: "collect f xs = Inr rs"
      and ys: "ys = (case r of None \<Rightarrow> rs | Some v \<Rightarrow> v # rs)"
    by blast
  from Cons.IH [OF rs] obtain idx
    where len: "length idx = length rs" and srt: "sorted_wrt (<) idx"
      and at: "\<forall>k < length rs. idx ! k < length xs \<and> f (xs ! (idx ! k)) = Inr (Some (rs ! k))"
    by blast
  have srt': "sorted_wrt (<) (map Suc idx)"
    using srt by (simp add: sorted_wrt_map)
  show ?case
  proof (cases r)
    case None
    with ys have "ys = rs" by simp
    with len srt' at show ?thesis
      by (intro exI [of _ "map Suc idx"]) simp
  next
    case (Some v)
    with ys have ys': "ys = v # rs" by simp
    have "sorted_wrt (<) (0 # map Suc idx)"
      using srt' by auto
    moreover have "\<forall>k < length ys. (0 # map Suc idx) ! k < length (x # xs) \<and>
        f ((x # xs) ! ((0 # map Suc idx) ! k)) = Inr (Some (ys ! k))"
    proof (intro allI impI)
      fix k assume k: "k < length ys"
      show "(0 # map Suc idx) ! k < length (x # xs) \<and>
        f ((x # xs) ! ((0 # map Suc idx) ! k)) = Inr (Some (ys ! k))"
      proof (cases k)
        case 0
        with r Some ys' show ?thesis by simp
      next
        case (Suc j)
        with k ys' have "j < length rs" by simp
        with at len Suc ys' show ?thesis by simp
      qed
    qed
    ultimately show ?thesis
      using len ys' by (intro exI [of _ "0 # map Suc idx"]) simp
  qed
qed


lemma two_item_lines_items:
  "ocr_processor_extract_line_items two_item_lines = Inr [big_pack_item, rice_item]"
  by (simp add: two_item_lines_def big_pack_item_def rice_item_def ocr_processor_eval py_eval rx_eval)

text \<open>
  Claim C6. When \<^verbatim>\<open>extract_line_items\<close> returns, its items follow the order of the
  lines they come from: there are strictly increasing line numbers, one per item, such
  that the item is what the loop body appends for that line. No item has a
  \<open>total_price\<close> below 10.
\<close>

theorem line_items_in_line_order_above_threshold:
  assumes "ocr_processor_extract_line_items text = Inr items"
  shows "(\<exists>idx. length idx = length items \<and> sorted_wrt (<) idx \<and>
            (\<forall>k < length items.
               idx ! k < length (stripped_lines text) \<and>
               ocr_processor_line_item (stripped_lines text ! (idx ! k)) = Inr (Some (items ! k)))) \<and>
         (\<forall>it \<in> set items. 10 \<le> total_price it)"
proof
  from assms have c: "collect ocr_processor_line_item (stripped_lines text) = Inr items"
    by (simp add: ocr_processor_extract_line_items_def)
  from collect_order [OF c]
  show "\<exists>idx. length idx = length items \<and> sorted_wrt (<) idx \<and>
            (\<forall>k < length items.
               idx ! k < length (stripped_lines text) \<and>
               ocr_processor_line_item (stripped_lines text ! (idx ! k)) = Inr (Some (items ! k)))" .
  show "\<forall>it \<in> set items. 10 \<le> total_price it"
  proof
    fix it assume "it \<in> set items"
    from collect_members [OF c this] obtain line
      where "ocr_processor_line_item line = Inr (Some it)"
      by blast
    from line_item_props [OF this] show "10 \<le> total_price it"
      by simp
  qed
qed

theorem line_items_in_line_order_above_threshold_witness:
  "ocr_processor_extract_line_items two_item_lines = Inr [big_pack_item, rice_item] \<and>
   (\<exists>idx. length idx = length [big_pack_item, rice_item] \<and> sorted_wrt (<) idx \<and>
      (\<forall>k < length [big_pack_item, rice_item].
         idx ! k < length (stripped_lines two_item_lines) \<and>
         ocr_processor_line_item (stripped_lines two_item_lines ! (idx ! k)) =
           Inr (Some ([big_pack_item, rice_item] ! k)))) \<and>
   10 \<le> total_price big_pack_item \<and> 10 \<le> total_price rice_item"
proof -
  note inst = line_items_in_line_order_above_threshold [OF two_item_lines_items]
  from inst have "10 \<le> total_price big_pack_item" and "10 \<le> total_price rice_item"
    by simp_all
  with inst two_item_lines_items show ?thesis
    by blast
qed

text \<open>
  Claim C7, as stated, fails: a line whose quantity field is \<^verbatim>\<open>0\<close> gives an item of
  quantity 0 (the unit price is then the total price).
\<close>

theorem line_item_quantity_zero_counterexample:
  "ocr_processor_extract_line_items (ustr ''Big Pack Pcs 0 800.00'') =
     Inr [\<lparr>name = ustr ''Big Pack'', quantity = 0, unit_price = 800, total_price = 800\<rparr>]"
  by (simp add: ocr_processor_eval py_eval rx_eval)

text \<open>
  Claim C7, amended. Every item that \<^verbatim>\<open>extract_line_items\<close> returns has an integer
  quantity of at least 0, and both prices: the unit price is the total price divided by
  the quantity when the quantity is positive, and the total price itself when the
  quantity is 0.
\<close>

theorem line_item_quantity_and_prices:
  assumes "ocr_processor_extract_line_items text = Inr items" and "it \<in> set items"
  shows "0 \<le> quantity it \<and>
         unit_price it =
           (if 0 < quantity it then total_price it / of_int (quantity it) else total_price it)"
proof -
  from assms(1) have c: "collect ocr_processor_line_item (stripped_lines text) = Inr items"
    by (simp add: ocr_processor_extract_line_items_def)
  from collect_members [OF c assms(2)] obtain line
    where "ocr_processor_line_item line = Inr (Some it)"
    by blast
  from line_item_props [OF this] show ?thesis
    by simp
qed

theorem line_item_quantity_and_prices_witness:
  "ocr_processor_extract_line_items two_item_lines = Inr [big_pack_item, rice_item] \<and>
   big_pack_item \<in> set [big_pack_item, rice_item] \<and>
   0 \<le> quantity big_pack_item \<and>
   unit_price big_pack_item = total_price big_pack_item / of_int (quantity big_pack_item)"
proof -
  have mem: "big_pack_item \<in> set [big_pack_item, rice_item]"
    by simp
  from line_item_quantity_and_prices [OF two_item_lines_items mem] two_item_lines_items
  show ?thesis
    by (simp add: big_pack_item_def)
qed


section \<open>Amounts\<close>





lemma ocr_processor_candidate_parsed:
  assumes "ocr_processor_amounts text = Inr amounts" and "ap \<in> set amounts"
  shows "\<exists>pat \<in> set ocr_processor_amount_patterns. \<exists>m \<in> set (re_finditer True True pat text).
           \<exists>g. m_group m 1 = Some g \<and> py_float (remove_commas g) = Some (fst ap) \<and>
                fst ap \<le> 1000000 \<and> 0 < length text \<and>
                snd ap = of_nat (m_start m) / of_nat (length text)"
proof -
  from collect_members [OF assms [unfolded ocr_processor_amounts_def]] obtain m
    where m: "m \<in> set (concat (map (\<lambda>pat. re_finditer True True pat text) ocr_processor_amount_patterns))"
      and v: "ocr_processor_amount_of_match text m = Inr (Some ap)"
    by blast
  from m obtain pat where "pat \<in> set ocr_processor_amount_patterns"
    and "m \<in> set (re_finditer True True pat text)"
    by auto
  moreover from v obtain g where "m_group m 1 = Some g"
    and "py_float (remove_commas g) = Some (fst ap)" and "fst ap \<le> 1000000" and "0 < length text"
    and "snd ap = of_nat (m_start m) / of_nat (length text)"
    by (auto simp add: ocr_processor_amount_of_match_def split: option.splits if_splits)
  ultimately show ?thesis
    by blast
qed

lemma simple_ocr_candidate_parsed:
  assumes "a \<in> set (simple_ocr_amounts_found text)"
  shows "\<exists>pat \<in> set simple_ocr_amount_patterns. \<exists>g \<in> set (re_findall True False pat text).
           py_float (remove_commas g) = Some a \<and> 1 / 100 \<le> a \<and> a \<le> 10000000"
proof -
  from assms obtain g
    where g: "g \<in> set (concat (map (\<lambda>pat. re_findall True False pat text) simple_ocr_amount_patterns))"
      and v: "simple_ocr_amount_of_match g = Some a"
    by (fastforce simp add: simple_ocr_amounts_found_def List.map_filter_def)
  from g obtain pat where "pat \<in> set simple_ocr_amount_patterns"
    and "g \<in> set (re_findall True False pat text)"
    by auto
  moreover from v have "py_float (remove_commas g) = Some a \<and> 1 / 100 \<le> a \<and> a \<le> 10000000"
    by (auto simp add: simple_ocr_amount_of_match_def split: option.splits if_splits)
  ultimately show ?thesis
    by blast
qed

lemma digits_value_snoc: "digits_value (s @ [c]) = 10 * digits_value s + (c - 48)"
  by (simp add: digits_value_def)

lemma py_float_decimal:
  assumes "list_all ascii_digit ip" and "list_all ascii_digit fp" and "ip \<noteq> [] \<or> fp \<noteq> []"
  shows "py_float (ip @ 46 # fp) =
           Some (of_nat (digits_value ip) + of_nat (digits_value fp) / 10 ^ length fp)"
proof -
  have "\<not> ascii_digit 46"
    by (simp add: ascii_digit_def)
  with assms(1) have tw: "takeWhile ascii_digit (ip @ 46 # fp) = ip"
    and dw: "dropWhile ascii_digit (ip @ 46 # fp) = 46 # fp"
    by (simp_all add: list_all_iff takeWhile_append2 dropWhile_append2)
  show ?thesis
    unfolding py_float_def Let_def tw dw using assms(2,3) by simp
qed

lemma py_float_integer:
  assumes "list_all ascii_digit ip" and "ip \<noteq> []"
  shows "py_float ip = Some (of_nat (digits_value ip))"
proof -
  from assms(1) have tw: "takeWhile ascii_digit ip = ip" and dw: "dropWhile ascii_digit ip = []"
    by (simp_all add: list_all_iff)
  show ?thesis
    unfolding py_float_def Let_def tw dw using assms(2) by simp
qed


lemma scenario1_amounts:
  "ocr_processor_amounts scenario1 = Inr [(617 / 50, 7 / 38), (617 / 50, 0)]"
  by (simp add: scenario1_def ocr_processor_eval py_eval rx_eval)


lemma seven_thousand_naira_amounts:
  "ocr_processor_amounts seven_thousand_naira = Inr [(7000, 0)]"
  by (simp add: seven_thousand_naira_def ocr_processor_eval py_eval rx_eval)

lemma seven_thousand_naira_amount:
  "ocr_processor_extract_amount seven_thousand_naira = Inr (Some 7000)"
  by (simp add: ocr_processor_extract_amount_def seven_thousand_naira_amounts
      ocr_processor_select_amount_def ocr_processor_significant_def
      ocr_processor_final_amounts_def)

lemma seven_thousand_naira_simple:
  "simple_ocr_extract_amount seven_thousand_naira = Some 7000"
  by (simp add: seven_thousand_naira_def simple_ocr_eval py_eval rx_eval)

lemma seven_thousand_naira_no_keyword:
  "\<not> any_in [''total'', ''due'', ''amount due'', ''pay''] (py_lower seven_thousand_naira)"
  by (simp add: seven_thousand_naira_def py_eval)

lemma unparsable_then_five_matches:
  "re_finditer True True (ocr_processor_amount_patterns ! 0) unparsable_then_five =
     [\<lparr>m_start = 0, m_end = 2, m_groups = [Some (ustr '','')]\<rparr>,
      \<lparr>m_start = 3, m_end = 8, m_groups = [Some (ustr ''5.00'')]\<rparr>]"
  by (simp add: unparsable_then_five_def ocr_processor_amount_patterns_def py_eval rx_eval)

lemma comma_unparsable: "py_float (remove_commas (ustr '','')) = None"
  by (simp add: py_eval)

lemma unparsable_then_five_amount:
  "ocr_processor_extract_amount unparsable_then_five = Inr (Some 5)"
  by (simp add: unparsable_then_five_def ocr_processor_eval py_eval rx_eval)

lemma unparsable_then_five_simple:
  "simple_ocr_extract_amount unparsable_then_five = Some 5"
  by (simp add: unparsable_then_five_def simple_ocr_eval py_eval rx_eval)



text \<open>
  Claim C5. The value of every candidate that the amount extractors accept is
  \<^verbatim>\<open>float\<close> of group 1 of a match with the commas removed; \<^verbatim>\<open>float\<close> reads a numeral
  \<open>ip.fp\<close> as the base-10 value of \<open>ip\<close> plus the base-10 value of \<open>fp\<close> over
  \<open>10 ^ length fp\<close>. The text \<^verbatim>\<open>7,000.00\<close> after a naira sign, which
  holds none of the keywords, yields 7000 in both modules. A candidate that
  \<^verbatim>\<open>float\<close> rejects is skipped and the extractor goes on: after the unparsable
  candidate \<^verbatim>\<open>,\<close> the later candidate \<^verbatim>\<open>5.00\<close> is still found.
\<close>

theorem amount_candidates_parsed_as_decimals:
  "(ocr_processor_amounts t = Inr amounts \<longrightarrow>
      (\<forall>ap \<in> set amounts.
         \<exists>pat \<in> set ocr_processor_amount_patterns. \<exists>m \<in> set (re_finditer True True pat t).
           \<exists>g. m_group m 1 = Some g \<and> py_float (remove_commas g) = Some (fst ap))) \<and>
   (\<forall>a \<in> set (simple_ocr_amounts_found t).
      \<exists>pat \<in> set simple_ocr_amount_patterns. \<exists>g \<in> set (re_findall True False pat t).
        py_float (remove_commas g) = Some a) \<and>
   (list_all ascii_digit ip \<and> list_all ascii_digit fp \<and> (ip \<noteq> [] \<or> fp \<noteq> []) \<longrightarrow>
      py_float (ip @ 46 # fp) =
        Some (of_nat (digits_value ip) + of_nat (digits_value fp) / 10 ^ length fp)) \<and>
   (list_all ascii_digit ip \<and> ip \<noteq> [] \<longrightarrow> py_float ip = Some (of_nat (digits_value ip))) \<and>
   digits_value [] = 0 \<and>
   digits_value (ip @ [c]) = 10 * digits_value ip + (c - 48) \<and>
   (m_group m 1 = Some g \<and> py_float (remove_commas g) = None \<longrightarrow>
      ocr_processor_amount_of_match t m = Inr None) \<and>
   (py_float (remove_commas g) = None \<longrightarrow> simple_ocr_amount_of_match g = None) \<and>
   \<not> any_in [''total'', ''due'', ''amount due'', ''pay''] (py_lower seven_thousand_naira) \<and>
   ocr_processor_extract_amount seven_thousand_naira = Inr (Some 7000) \<and>
   simple_ocr_extract_amount seven_thousand_naira = Some 7000 \<and>
   ocr_processor_extract_amount unparsable_then_five = Inr (Some 5) \<and>
   simple_ocr_extract_amount unparsable_then_five = Some 5"
proof (intro conjI)
  show "ocr_processor_amounts t = Inr amounts \<longrightarrow>
      (\<forall>ap \<in> set amounts.
         \<exists>pat \<in> set ocr_processor_amount_patterns. \<exists>m \<in> set (re_finditer True True pat t).
           \<exists>g. m_group m 1 = Some g \<and> py_float (remove_commas g) = Some (fst ap))"
    using ocr_processor_candidate_parsed [of t amounts] by blast
  show "\<forall>a \<in> set (simple_ocr_amounts_found t).
      \<exists>pat \<in> set simple_ocr_amount_patterns. \<exists>g \<in> set (re_findall True False pat t).
        py_float (remove_commas g) = Some a"
    using simple_ocr_candidate_parsed [of _ t] by blast
  show "list_all ascii_digit ip \<and> list_all ascii_digit fp \<and> (ip \<noteq> [] \<or> fp \<noteq> []) \<longrightarrow>
      py_float (ip @ 46 # fp) =
        Some (of_nat (digits_value ip) + of_nat (digits_value fp) / 10 ^ length fp)"
    using py_float_decimal [of ip fp] by blast
  show "list_all ascii_digit ip \<and> ip \<noteq> [] \<longrightarrow> py_float ip = Some (of_nat (digits_value ip))"
    using py_float_integer [of ip] by blast
  show "digits_value [] = 0"
    by (simp add: digits_value_def)
  show "digits_value (ip @ [c]) = 10 * digits_value ip + (c - 48)"
    by (rule digits_value_snoc)
  show "m_group m 1 = Some g \<and> py_float (remove_commas g) = None \<longrightarrow>
      ocr_processor_amount_of_match t m = Inr None"
    by (simp add: ocr_processor_amount_of_match_def)
  show "py_float (remove_commas g) = None \<longrightarrow> simple_ocr_amount_of_match g = None"
    by (simp add: simple_ocr_amount_of_match_def)
qed (rule seven_thousand_naira_no_keyword seven_thousand_naira_amount seven_thousand_naira_simple
      unparsable_then_five_amount unparsable_then_five_simple)+

theorem amount_candidates_parsed_as_decimals_witness:
  "ocr_processor_amounts seven_thousand_naira = Inr [(7000, 0)] \<and>
   (\<exists>pat \<in> set ocr_processor_amount_patterns.
      \<exists>m \<in> set (re_finditer True True pat seven_thousand_naira).
        \<exists>g. m_group m 1 = Some g \<and> py_float (remove_commas g) = Some 7000) \<and>
   py_float (ustr ''7000'' @ 46 # ustr ''00'') = Some 7000 \<and>
   py_float (remove_commas (ustr '','')) = None \<and>
   ocr_processor_amount_of_match unparsable_then_five
     \<lparr>m_start = 0, m_end = 2, m_groups = [Some (ustr '','')]\<rparr> = Inr None \<and>
   simple_ocr_amount_of_match (ustr '','') = None"
proof -
  note inst = amount_candidates_parsed_as_decimals
    [where t = seven_thousand_naira and amounts = "[(7000, 0)]" and ip = "ustr ''7000''"
       and fp = "ustr ''00''"]
  note skip = amount_candidates_parsed_as_decimals
    [where t = unparsable_then_five and g = "ustr '',''"
       and m = "\<lparr>m_start = 0, m_end = 2, m_groups = [Some (ustr '','')]\<rparr>"]
  have digits: "list_all ascii_digit (ustr ''7000'') \<and> list_all ascii_digit (ustr ''00'') \<and>
      (ustr ''7000'' \<noteq> [] \<or> ustr ''00'' \<noteq> [])"
    by (simp add: py_eval)
  have val: "(of_nat (digits_value (ustr ''7000'')) :: rat) +
      of_nat (digits_value (ustr ''00'')) / 10 ^ length (ustr ''00'') = 7000"
    by (simp add: py_eval)
  have grp: "m_group \<lparr>m_start = 0, m_end = 2, m_groups = [Some (ustr '','')]\<rparr> 1 = Some (ustr '','')"
    by (simp add: m_group_def)
  from inst seven_thousand_naira_amounts digits val
  have "(\<exists>pat \<in> set ocr_processor_amount_patterns.
      \<exists>m \<in> set (re_finditer True True pat seven_thousand_naira).
        \<exists>g. m_group m 1 = Some g \<and> py_float (remove_commas g) = Some 7000) \<and>
      py_float (ustr ''7000'' @ 46 # ustr ''00'') = Some 7000"
    by auto
  moreover from skip grp comma_unparsable
  have "ocr_processor_amount_of_match unparsable_then_five
     \<lparr>m_start = 0, m_end = 2, m_groups = [Some (ustr '','')]\<rparr> = Inr None \<and>
     simple_ocr_amount_of_match (ustr '','') = None"
    by blast
  ultimately show ?thesis
    using seven_thousand_naira_amounts comma_unparsable by blast
qed


section \<open>The first scenario of the specification\<close>

lemma scenario1_long_enough: "scenario1 \<noteq> [] \<and> \<not> length (py_strip scenario1) < 10"
  by (simp add: scenario1_def py_eval)

lemma scenario1_vendor: "ocr_processor_extract_vendor scenario1 = Inr (Some (ustr ''Big Store LTD''))"
  by (simp add: scenario1_def ocr_processor_eval py_eval rx_eval)

lemma scenario1_amount: "ocr_processor_extract_amount scenario1 = Inr (Some (1234 / 100))"
  by (simp add: ocr_processor_extract_amount_def scenario1_amounts ocr_processor_select_amount_def
      ocr_processor_significant_def ocr_processor_final_amounts_def ocr_processor_final_score_def
      ocr_processor_text_around_def)

lemma scenario1_date: "ocr_processor_extract_date scenario1 = Inr (Some (ustr ''24-12-31''))"
  by (simp add: scenario1_def ocr_processor_eval py_eval rx_eval)

lemma scenario1_line_items: "ocr_processor_extract_line_items scenario1 = Inr []"
  by (simp add: scenario1_def ocr_processor_eval py_eval rx_eval)

lemma scenario1_category:
  "ocr_processor_classify_category (Some (ustr ''Big Store LTD'')) scenario1 = ustr ''fuel''"
  by (simp add: scenario1_def ocr_processor_eval py_eval)

lemma scenario1_body:
  "ocr_processor_process_body scenario1 =
     Inr \<lparr>vendor = Some (ustr ''Big Store LTD''), amount = Some (1234 / 100),
          date = Some (ustr ''24-12-31''), category = ustr ''fuel'', line_items = [],
          raw_text = scenario1, success = True, error = None\<rparr>"
  unfolding ocr_processor_process_body_def
  using scenario1_long_enough
  by (simp add: scenario1_vendor scenario1_amount scenario1_date scenario1_line_items
      scenario1_category)

lemma scenario1_simple_vendor:
  "simple_ocr_extract_vendor scenario1 = Inr (Some (ustr ''Big Store LTD''))"
  by (simp add: scenario1_def simple_ocr_eval py_eval rx_eval)

lemma scenario1_simple_amount: "simple_ocr_extract_amount scenario1 = Some (1234 / 100)"
  by (simp add: scenario1_def simple_ocr_eval py_eval rx_eval)

lemma scenario1_simple_date: "simple_ocr_extract_date scenario1 = Inr (Some (ustr ''24-12-31''))"
  by (simp add: scenario1_def simple_ocr_eval py_eval rx_eval)

lemma scenario1_simple_category:
  "simple_ocr_classify_category (Some (ustr ''Big Store LTD'')) scenario1 = ustr ''other''"
  by (simp add: scenario1_def simple_ocr_eval py_eval)

lemma scenario1_simple_body:
  "simple_ocr_process_body Pdf scenario1 =
     Inr \<lparr>vendor = Some (ustr ''Big Store LTD''), amount = Some (1234 / 100),
          date = Some (ustr ''24-12-31''), category = ustr ''other'', line_items = [],
          raw_text = scenario1, success = True, error = None\<rparr>"
  unfolding simple_ocr_process_body_def
  using scenario1_long_enough
  by (simp add: scenario1_simple_vendor scenario1_simple_amount scenario1_simple_date
      scenario1_simple_category)

text \<open>
  Claim C3. On the text of the first scenario both modules find the amount 12.34 and the
  vendor \<^verbatim>\<open>Big Store LTD\<close>, but the date they return is \<^verbatim>\<open>24-12-31\<close>, not
  \<^verbatim>\<open>2024-12-31\<close>: the pattern for day, month and year is tried before the ISO pattern
  and matches inside the ISO date.
\<close>

theorem scenario1_date_truncated:
  "ocr_processor_process_receipt scenario1 =
     \<lparr>vendor = Some (ustr ''Big Store LTD''), amount = Some (1234 / 100),
      date = Some (ustr ''24-12-31''), category = ustr ''fuel'', line_items = [],
      raw_text = scenario1, success = True, error = None\<rparr> \<and>
   simple_ocr_process_receipt Pdf scenario1 =
     \<lparr>vendor = Some (ustr ''Big Store LTD''), amount = Some (1234 / 100),
      date = Some (ustr ''24-12-31''), category = ustr ''other'', line_items = [],
      raw_text = scenario1, success = True, error = None\<rparr> \<and>
   ustr ''24-12-31'' \<noteq> ustr ''2024-12-31''"
  by (simp add: ocr_processor_process_receipt_def simple_ocr_process_receipt_def scenario1_body
      scenario1_simple_body) (simp add: ustr_def)

text \<open>
  The raw text on the three outcomes: success in both modules, and the exception caught
  in \<^verbatim>\<open>ocr_processor\<close>.
\<close>

theorem raw_text_preserved_unless_fault_witness:
  "raw_text (ocr_processor_process_receipt scenario1) = scenario1 \<and>
   raw_text (simple_ocr_process_receipt Pdf scenario1) = scenario1 \<and>
   raw_text (ocr_processor_process_receipt (ustr ''Candy 5.00'')) = []"
  using raw_text_preserved_unless_fault [of scenario1 Pdf]
    raw_text_preserved_unless_fault [of "ustr ''Candy 5.00''" Pdf]
  by (simp add: scenario1_body scenario1_simple_body candy_body)

section \<open>The recipient label\<close>

lemma lower_label_line_has_label:
  "py_in (ustr ''recipient details'') (py_lower lower_label_line)"
  by (simp add: lower_label_line_def py_eval)

lemma lower_label_line_simple: "simple_ocr_extract_vendor lower_label_line = Inr None"
  by (simp add: lower_label_line_def simple_ocr_eval py_eval rx_eval)

lemma upper_label_line_simple:
  "simple_ocr_extract_vendor upper_label_line = Inr (Some upper_label_line)"
  by (simp add: upper_label_line_def simple_ocr_eval py_eval rx_eval)

lemma lower_label_line_ocr_processor:
  "ocr_processor_extract_vendor lower_label_line = Inr (Some (ustr ''john smith''))"
  by (simp add: lower_label_line_def ocr_processor_eval py_eval rx_eval)

text \<open>
  Claim C9. \<^verbatim>\<open>extract_vendor\<close> of \<^verbatim>\<open>simple_ocr\<close> finds the label without regard to
  case but splits the line at the literal \<^verbatim>\<open>Details\<close>. On the line
  \<^verbatim>\<open>recipient details john smith\<close> the label stage gives nothing and neither does any
  later stage; on the same line in upper case the last stage returns the whole line,
  label included. \<^verbatim>\<open>extract_vendor\<close> of \<^verbatim>\<open>ocr_processor\<close> returns \<^verbatim>\<open>john smith\<close>.
\<close>

theorem recipient_label_case_sensitive_split:
  "py_in (ustr ''recipient details'') (py_lower lower_label_line) \<and>
   simple_ocr_recipient_line lower_label_line = None \<and>
   simple_ocr_extract_vendor lower_label_line = Inr None \<and>
   simple_ocr_extract_vendor upper_label_line = Inr (Some upper_label_line) \<and>
   ocr_processor_extract_vendor lower_label_line = Inr (Some (ustr ''john smith''))"
proof (intro conjI)
  show "simple_ocr_recipient_line lower_label_line = None"
    by (simp add: lower_label_line_def simple_ocr_recipient_line_def py_eval)
qed (rule lower_label_line_has_label lower_label_line_simple upper_label_line_simple
      lower_label_line_ocr_processor)+

section \<open>Categories\<close>

lemma startswith_iff: "startswith s p \<longleftrightarrow> (\<exists>b. s = p @ b)"
  by (induction s p rule: startswith.induct) auto

lemma py_in_iff: "py_in p s \<longleftrightarrow> (\<exists>a b. s = a @ p @ b)"
proof (induction s)
  case Nil
  then show ?case by auto
next
  case (Cons x xs)
  have "(\<exists>a b. x # xs = a @ p @ b) \<longleftrightarrow> (\<exists>b. x # xs = p @ b) \<or> (\<exists>a b. xs = a @ p @ b)"
  proof
    assume "\<exists>a b. x # xs = a @ p @ b"
    then obtain a b where ab: "x # xs = a @ p @ b" by blast
    show "(\<exists>b. x # xs = p @ b) \<or> (\<exists>a b. xs = a @ p @ b)"
    proof (cases a)
      case Nil
      with ab show ?thesis by auto
    next
      case (Cons y ys)
      with ab have "xs = ys @ p @ b" by simp
      then show ?thesis by blast
    qed
  next
    assume "(\<exists>b. x # xs = p @ b) \<or> (\<exists>a b. xs = a @ p @ b)"
    then show "\<exists>a b. x # xs = a @ p @ b"
    proof
      assume "\<exists>b. x # xs = p @ b"
      then obtain b where "x # xs = [] @ p @ b" by auto
      then show ?thesis by blast
    next
      assume "\<exists>a b. xs = a @ p @ b"
      then obtain a b where "x # xs = (x # a) @ p @ b" by auto
      then show ?thesis by blast
    qed
  qed
  with Cons show ?case
    by (simp add: startswith_iff)
qed

lemma py_in_lower: "py_in p s \<Longrightarrow> py_in (py_lower p) (py_lower s)"
proof -
  assume "py_in p s"
  then obtain a b where "s = a @ p @ b"
    by (auto simp add: py_in_iff)
  then have "py_lower s = py_lower a @ py_lower p @ py_lower b"
    by (simp add: py_lower_def)
  then show ?thesis
    unfolding py_in_iff by blast
qed

lemma py_in_append: "py_in p s \<Longrightarrow> py_in p (a @ s)"
  by (metis append.assoc py_in_iff)

lemma opay_lower: "py_lower (ustr ''opay'') = ustr ''opay''"
  by (simp add: py_lower_def ustr_def lower_char_def ascii_upper_def)

lemma opay_in_lower: "py_in (ustr ''opay'') s \<Longrightarrow> py_in (ustr ''opay'') (py_lower s)"
  using py_in_lower [of "ustr ''opay''" s] by (simp add: opay_lower)

lemma ocr_opay:
  assumes "py_in (ustr ''opay'') s"
  shows "ocr_processor_classify_category v s = ustr ''financial''"
proof -
  have "py_lower (vendor_or_empty v @ [32] @ s) = (py_lower (vendor_or_empty v) @ [32]) @ py_lower s"
    by (simp add: py_lower_def lower_char_def ascii_upper_def)
  with opay_in_lower [OF assms] have "py_in (ustr ''opay'') (py_lower (vendor_or_empty v @ [32] @ s))"
    by (simp only: py_in_append)
  then show ?thesis
    by (simp add: ocr_processor_classify_category_def ocr_processor_categories_def any_in_def)
qed

lemma simple_opay:
  assumes "py_in (ustr ''opay'') s"
    and "first_category simple_ocr_vendor_categories (py_lower (vendor_or_empty v)) = None"
    and "\<not> simple_ocr_personal_name v"
  shows "simple_ocr_classify_category v s = ustr ''financial''"
  using opay_in_lower [OF assms(1)] assms(2,3)
  by (simp add: simple_ocr_classify_category_def simple_ocr_general_categories_def any_in_def)


lemma opay_transfer_vendor:
  "simple_ocr_extract_vendor opay_transfer = Inr (Some (ustr ''John Smith''))"
  by (simp add: opay_transfer_def simple_ocr_eval py_eval)

lemma opay_transfer_category:
  "simple_ocr_classify_category (Some (ustr ''John Smith'')) opay_transfer = ustr ''personal''"
  by (simp add: opay_transfer_def simple_ocr_eval py_eval)

lemma opay_transfer_has_opay: "py_in (ustr ''opay'') opay_transfer"
  by (simp add: opay_transfer_def py_eval)

lemma john_smith_no_indicator:
  "\<not> any_in simple_ocr_company_indicators (py_lower (ustr ''John Smith''))"
  by (simp add: simple_ocr_company_indicators_def py_eval)

text \<open>
  Claim C10, as stated, fails for \<^verbatim>\<open>simple_ocr\<close>: the text holds \<^verbatim>\<open>opay\<close>, the
  extracted vendor \<^verbatim>\<open>John Smith\<close> has no company suffix, and the category is
  \<^verbatim>\<open>personal\<close>.
\<close>

theorem opay_personal_counterexample:
  "py_in (ustr ''opay'') opay_transfer \<and>
   simple_ocr_extract_vendor opay_transfer = Inr (Some (ustr ''John Smith'')) \<and>
   \<not> any_in simple_ocr_company_indicators (py_lower (ustr ''John Smith'')) \<and>
   simple_ocr_classify_category (Some (ustr ''John Smith'')) opay_transfer = ustr ''personal'' \<and>
   ustr ''personal'' \<noteq> ustr ''financial''"
proof (intro conjI)
  show "ustr ''personal'' \<noteq> ustr ''financial''"
    by (simp add: ustr_def)
qed (rule opay_transfer_has_opay opay_transfer_vendor john_smith_no_indicator
      opay_transfer_category)+

text \<open>
  Claim C10, amended. For every text that contains \<^verbatim>\<open>opay\<close>, the classifier of
  \<^verbatim>\<open>ocr_processor\<close> returns \<^verbatim>\<open>financial\<close> whatever the vendor is; the classifier of
  \<^verbatim>\<open>simple_ocr\<close> returns \<^verbatim>\<open>financial\<close> when the vendor holds none of its vendor
  keywords and is not a name of two or more words without a company indicator (such a
  vendor is classified \<^verbatim>\<open>personal\<close>).
\<close>

theorem opay_text_is_financial:
  assumes "py_in (ustr ''opay'') text"
  shows "ocr_processor_classify_category v text = ustr ''financial'' \<and>
         (first_category simple_ocr_vendor_categories (py_lower (vendor_or_empty v)) = None \<and>
          \<not> simple_ocr_personal_name v \<longrightarrow>
          simple_ocr_classify_category v text = ustr ''financial'') \<and>
         (first_category simple_ocr_vendor_categories (py_lower (vendor_or_empty v)) = None \<and>
          simple_ocr_personal_name v \<longrightarrow>
          simple_ocr_classify_category v text = ustr ''personal'')"
  using ocr_opay [OF assms, of v] simple_opay [OF assms, of v]
  by (simp add: simple_ocr_classify_category_def)

lemma opay_receipt_has_opay: "py_in (ustr ''opay'') opay_receipt"
  by (simp add: opay_receipt_def py_eval)

lemma opay_receipt_vendor: "simple_ocr_extract_vendor opay_receipt = Inr (Some (ustr ''OPay''))"
  by (simp add: opay_receipt_def simple_ocr_eval py_eval rx_eval)

lemma opay_vendor_no_keyword:
  "first_category simple_ocr_vendor_categories (py_lower (vendor_or_empty (Some (ustr ''OPay'')))) = None"
  by (simp add: simple_ocr_vendor_categories_def py_eval)

lemma opay_vendor_not_personal: "\<not> simple_ocr_personal_name (Some (ustr ''OPay''))"
  by (simp add: simple_ocr_personal_name_def py_eval)

theorem opay_text_is_financial_witness:
  "py_in (ustr ''opay'') opay_receipt \<and>
   simple_ocr_extract_vendor opay_receipt = Inr (Some (ustr ''OPay'')) \<and>
   ocr_processor_classify_category (Some (ustr ''OPay'')) opay_receipt = ustr ''financial'' \<and>
   simple_ocr_classify_category (Some (ustr ''OPay'')) opay_receipt = ustr ''financial''"
  using opay_text_is_financial [OF opay_receipt_has_opay, of "Some (ustr ''OPay'')"]
    opay_receipt_has_opay opay_receipt_vendor opay_vendor_no_keyword opay_vendor_not_personal
  by blast

end
